theory Spec2Isabelle
  imports Main
begin

section \<open>Data model\<close>

text \<open>
  Go byte slices and strings are sequences of bytes; \<open>char\<close> is a byte, so both
  are \<open>char list\<close>. A Go map that is only ranged over, measured or passed on is the
  list of its entries in the order the \<open>range\<close> statement visits them (Go leaves that
  order open, so every theorem below holds for each order); a Go map that is read
  and written by key is a partial function, wrapped in \<open>option\<close> where the code
  tells the nil map from an allocated one.
\<close>

type_synonym bytes = "char list"
type_synonym entries = "(string \<times> string) list"
type_synonym annotations = "(string \<rightharpoonup> string) option"

text \<open>\<open>ocispec.Descriptor\<close>: the fields this code reads and writes.\<close>

record Descriptor =
  MediaType :: string
  Digest :: string
  Size :: int
  Annotations :: annotations

text \<open>The zero value \<open>ocispec.Descriptor{}\<close>.\<close>

definition emptyDescriptor :: Descriptor where
  "emptyDescriptor = \<lparr>MediaType = [], Digest = [], Size = 0, Annotations = None\<rparr>"

text \<open>
  Errors. A message is kept as the format string and the arguments handed to
  \<open>fmt.Sprintf\<close>, \<open>fmt.Errorf\<close> or \<open>errors.New\<close>; \<open>ArgErr e\<close> stands for the text
  \<open>e.Error()\<close>. \<open>errDoneVerification\<close> is the package-level sentinel, compared
  by identity in the source, hence a constructor of its own. \<open>panic\<close> is a
  run-time panic of the Go program.
\<close>

datatype message = Sprintf string "fmtarg list"
and fmtarg = ArgInt int | ArgStr string | ArgErr error
and error =
    errorString message
  | ErrorSignatureRetrievalFailed message
  | ErrorVerificationFailed message
  | ErrorUserMetadataVerificationFailed message
  | ErrorPushSignatureFailed message
  | ErrorSignLocalContent message
  | errDoneVerification
  | panic message

text \<open>\<open>x509.Certificate\<close>: the fields read by this code.\<close>

record Certificate =
  Raw :: bytes
  RawSubject :: bytes
  RawIssuer :: bytes
  IsCA :: bool
  Subject :: string

text \<open>\<open>signature.SignerInfo\<close> and \<open>signature.EnvelopeContent\<close> (notation-core-go).\<close>

record SignerInfo =
  SigningAlgorithm :: string
  CertificateChain :: "Certificate list"

record EnvelopeContent =
  PayloadContentType :: string
  PayloadContent :: bytes
  EnvelopeSignerInfo :: SignerInfo

datatype ValidationType =
  TypeIntegrity | TypeAuthenticity | TypeAuthenticTimestamp | TypeExpiry
  | TypeRevocation | TypeAuthorizedIdentity

datatype ValidationAction = ActionEnforce | ActionLog | ActionSkip

record VerificationLevel =
  LevelName :: string
  Enforcement :: "(ValidationType \<times> ValidationAction) list"

record ValidationResult =
  Type :: ValidationType
  Action :: ValidationAction
  ResultError :: "error option"

text \<open>\<open>VerificationOutcome\<close>; a nil slice or pointer is \<open>None\<close>.\<close>

record VerificationOutcome =
  RawSignature :: "bytes option"
  OutcomeEnvelopeContent :: "EnvelopeContent option"
  OutcomeVerificationLevel :: "VerificationLevel option"
  VerificationResults :: "ValidationResult list"
  Error :: "error option"

record VerifyOptions =
  ArtifactReference :: string
  SignatureMediaType :: string
  PluginConfig :: entries
  UserMetadata :: entries
  TargetAtLocal :: bool
  TrustPolicyScope :: string

text \<open>The zero value \<open>VerifyOptions{}\<close> and the outcome literal of the skip path.\<close>

definition emptyOutcome :: VerificationOutcome where
  "emptyOutcome = \<lparr>RawSignature = None, OutcomeEnvelopeContent = None,
     OutcomeVerificationLevel = None, VerificationResults = [], Error = None\<rparr>"

record RemoteVerifyOptions =
  RemoteArtifactReference :: string
  RemotePluginConfig :: entries
  MaxSignatureAttempts :: int
  RemoteUserMetadata :: entries

section \<open>Collaborators of \<open>notation.Verify\<close>\<close>

text \<open>
  The \<open>Verifier\<close> interface value. \<open>SkipVerify\<close> is \<open>None\<close> when the dynamic type
  does not implement \<open>skipVerifier\<close>. \<open>Verify\<close> returns the pair of the source:
  an outcome pointer (possibly nil) and an error (possibly nil).
\<close>

record Verifier =
  VerifierVerify :: "Descriptor \<Rightarrow> bytes \<Rightarrow> VerifyOptions
                       \<Rightarrow> VerificationOutcome option \<times> error option"
  SkipVerify :: "(VerifyOptions \<Rightarrow> bool \<times> VerificationLevel option \<times> error option) option"

text \<open>
  The \<open>registry.Repository\<close> interface value. \<open>isRemote\<close> is the result of the
  type assertion \<open>repo.(orasRegistry.Repository)\<close>. \<open>Referrers\<close> gives, for a
  subject, the pages the referrers listing delivers to the callback of
  \<open>ListSignatures\<close>, and the error the listing itself ends with, if any.
\<close>

record Repository =
  isRemote :: bool
  Resolve :: "string \<Rightarrow> error + Descriptor"
  Referrers :: "Descriptor \<Rightarrow> Descriptor list list \<times> error option"
  RepoFetchSignatureBlob :: "Descriptor \<Rightarrow> error + (bytes \<times> Descriptor)"
  RepoPushSignature :: "string \<Rightarrow> bytes \<Rightarrow> Descriptor \<Rightarrow> annotations
                          \<Rightarrow> error + (Descriptor \<times> Descriptor)"

text \<open>
  \<open>orasRegistry.ParseReference\<close> is outside the repository: it is a parameter,
  returning the \<open>Reference\<close> field of the parsed reference.
\<close>

type_synonym parser = "string \<Rightarrow> error + string"

text \<open>The calls \<open>Verify\<close> makes on its collaborators, in order.\<close>

datatype call =
    CallSkipVerify VerifyOptions
  | CallResolve string
  | CallListSignatures Descriptor
  | CallFetchSignatureBlob Descriptor
  | CallVerify Descriptor bytes VerifyOptions

text \<open>
  The variables the callback closure captures and mutates, with the log of calls.
\<close>

record verify_state =
  numOfSignatureProcessed :: int
  verificationOutcomes :: "VerificationOutcome option list"
  verificationFailedErr :: error
  opts :: VerifyOptions
  calls :: "call list"

section \<open>\<open>notation.Verify\<close>\<close>

definition errExceededMaxVerificationLimit :: "RemoteVerifyOptions \<Rightarrow> error" where
  "errExceededMaxVerificationLimit remoteOpts =
     ErrorVerificationFailed
       (Sprintf ''total number of signatures associated with an artifact should be less than: %d''
          [ArgInt (MaxSignatureAttempts remoteOpts)])"

text \<open>The type assertion \<open>outcome.Error.(ErrorUserMetadataVerificationFailed)\<close>.\<close>

fun isUserMetadataVerificationFailed :: "error option \<Rightarrow> bool" where
  "isUserMetadataVerificationFailed (Some (ErrorUserMetadataVerificationFailed m)) = True"
| "isUserMetadataVerificationFailed _ = False"

text \<open>
  The \<open>for\<close> loop of the callback over one page. The result is \<open>Some e\<close> when the
  loop body executes \<open>return e\<close>, and \<open>None\<close> when the loop ends, by \<open>break\<close> or at
  the end of the page.
\<close>

fun processSignatures ::
  "Verifier \<Rightarrow> Repository \<Rightarrow> RemoteVerifyOptions \<Rightarrow> Descriptor \<Rightarrow> Descriptor list
     \<Rightarrow> verify_state \<Rightarrow> error option \<times> verify_state" where
  "processSignatures verifier repo remoteOpts artifactDescriptor [] s = (None, s)"
| "processSignatures verifier repo remoteOpts artifactDescriptor (sigManifestDesc # rest) s =
     (if numOfSignatureProcessed s \<ge> MaxSignatureAttempts remoteOpts then (None, s)
      else
        let s1 = s\<lparr>numOfSignatureProcessed := numOfSignatureProcessed s + 1,
                   calls := calls s @ [CallFetchSignatureBlob sigManifestDesc]\<rparr>
        in case RepoFetchSignatureBlob repo sigManifestDesc of
             Inl err \<Rightarrow>
               (Some (ErrorSignatureRetrievalFailed
                  (Sprintf ''unable to retrieve digital signature with digest %q associated with %q from the registry, error : %v''
                     [ArgStr (Digest sigManifestDesc),
                      ArgStr (RemoteArtifactReference remoteOpts), ArgErr err])), s1)
           | Inr (sigBlob, sigDesc) \<Rightarrow>
               let opts' = (opts s1)\<lparr>SignatureMediaType := MediaType sigDesc\<rparr>;
                   s2 = s1\<lparr>opts := opts',
                          calls := calls s1 @ [CallVerify artifactDescriptor sigBlob opts']\<rparr>
               in case VerifierVerify verifier artifactDescriptor sigBlob opts' of
                    (outcome, Some err) \<Rightarrow>
                      (case outcome of
                         None \<Rightarrow> (Some err, s2)
                       | Some oc \<Rightarrow>
                           processSignatures verifier repo remoteOpts artifactDescriptor rest
                             (if isUserMetadataVerificationFailed (Error oc)
                              then s2\<lparr>verificationFailedErr := the (Error oc)\<rparr>
                              else s2))
                  | (outcome, None) \<Rightarrow>
                      (Some errDoneVerification,
                       s2\<lparr>verificationOutcomes := verificationOutcomes s2 @ [outcome]\<rparr>))"

text \<open>The callback handed to \<open>ListSignatures\<close>: the loop, then the limit check.\<close>

definition callback ::
  "Verifier \<Rightarrow> Repository \<Rightarrow> RemoteVerifyOptions \<Rightarrow> Descriptor \<Rightarrow> Descriptor list
     \<Rightarrow> verify_state \<Rightarrow> error option \<times> verify_state" where
  "callback verifier repo remoteOpts artifactDescriptor signatureManifests s =
     (case processSignatures verifier repo remoteOpts artifactDescriptor signatureManifests s of
        (Some err, s') \<Rightarrow> (Some err, s')
      | (None, s') \<Rightarrow>
          if numOfSignatureProcessed s' \<ge> MaxSignatureAttempts remoteOpts
          then (Some (errExceededMaxVerificationLimit remoteOpts), s')
          else (None, s'))"

text \<open>
  \<open>ListSignatures\<close>: each page of the listing is handed to the callback; the first
  error the callback returns stops the paging and is returned as it is; when the
  pages are exhausted the listing's own error, if any, is returned.
\<close>

fun deliverPages ::
  "(Descriptor list \<Rightarrow> 's \<Rightarrow> error option \<times> 's) \<Rightarrow> Descriptor list list \<Rightarrow> error option
     \<Rightarrow> 's \<Rightarrow> error option \<times> 's" where
  "deliverPages fn [] final s = (final, s)"
| "deliverPages fn (page # pages) final s =
     (case fn page s of
        (Some err, s') \<Rightarrow> (Some err, s')
      | (None, s') \<Rightarrow> deliverPages fn pages final s')"

definition ListSignatures ::
  "Repository \<Rightarrow> Descriptor \<Rightarrow> (Descriptor list \<Rightarrow> 's \<Rightarrow> error option \<times> 's) \<Rightarrow> 's
     \<Rightarrow> error option \<times> 's" where
  "ListSignatures repo desc fn s =
     (case Referrers repo desc of (pages, final) \<Rightarrow> deliverPages fn pages final s)"

text \<open>
  The statements of \<open>Verify\<close> after \<open>ListSignatures\<close> has returned \<open>err\<close>: the
  mapping of the callback's error, the two failure cases and the success case.
\<close>

definition afterListSignatures ::
  "RemoteVerifyOptions \<Rightarrow> Descriptor \<Rightarrow> error option \<Rightarrow> verify_state
     \<Rightarrow> Descriptor \<times> VerificationOutcome option list \<times> error option" where
  "afterListSignatures remoteOpts artifactDescriptor err s =
     (if err \<noteq> None \<and> err \<noteq> Some errDoneVerification then
        (if err = Some (errExceededMaxVerificationLimit remoteOpts)
         then (emptyDescriptor, verificationOutcomes s, err)
         else (emptyDescriptor, [], err))
      else if numOfSignatureProcessed s = 0 then
        (emptyDescriptor, [],
         Some (ErrorSignatureRetrievalFailed
           (Sprintf ''no signature is associated with %q, make sure the image was signed successfully''
              [ArgStr (RemoteArtifactReference remoteOpts)])))
      else if length (verificationOutcomes s) = 0 then
        (emptyDescriptor, verificationOutcomes s, Some (verificationFailedErr s))
      else (artifactDescriptor, verificationOutcomes s, None))"

text \<open>
  \<open>Verify\<close>. The result is the triple the source returns, with the final values of
  the captured variables. The counter and the other captured variables hold their
  initial values on the paths that return before they are declared. Logging is
  left out; \<open>ValidateReferenceAsDigest\<close> only selects a log line.
\<close>

definition initOpts :: "RemoteVerifyOptions \<Rightarrow> VerifyOptions" where
  "initOpts remoteOpts =
     \<lparr>ArtifactReference = RemoteArtifactReference remoteOpts,
      SignatureMediaType = [],
      PluginConfig = RemotePluginConfig remoteOpts,
      UserMetadata = RemoteUserMetadata remoteOpts,
      TargetAtLocal = False, TrustPolicyScope = []\<rparr>"

definition initState :: "VerifyOptions \<Rightarrow> verify_state" where
  "initState o0 = \<lparr>numOfSignatureProcessed = 0, verificationOutcomes = [],
     verificationFailedErr = ErrorVerificationFailed (Sprintf [] []),
     opts = o0, calls = []\<rparr>"

definition Verify ::
  "parser \<Rightarrow> Verifier \<Rightarrow> Repository \<Rightarrow> RemoteVerifyOptions
     \<Rightarrow> (Descriptor \<times> VerificationOutcome option list \<times> error option) \<times> verify_state" where
  "Verify ParseReference verifier repo remoteOpts =
    (let o0 = initOpts remoteOpts;
         s0 = initState o0
     in
     if \<not> isRemote repo then
       ((emptyDescriptor, [],
         Some (errorString (Sprintf ''failed to verify: repo must be remote repository'' []))), s0)
     else
       let skipped =
             (case SkipVerify verifier of
                None \<Rightarrow> (None, s0)
              | Some skipVerify \<Rightarrow>
                  let s1 = s0\<lparr>calls := calls s0 @ [CallSkipVerify o0]\<rparr>
                  in case skipVerify o0 of
                       (skip, verificationLevel, Some err) \<Rightarrow>
                         (Some (emptyDescriptor, [], Some err), s1)
                     | (skip, verificationLevel, None) \<Rightarrow>
                         if skip
                         then (Some (emptyDescriptor,
                                 [Some (emptyOutcome\<lparr>OutcomeVerificationLevel := verificationLevel\<rparr>)],
                                 None), s1)
                         else (None, s1))
       in case skipped of
            (Some r, s1) \<Rightarrow> (r, s1)
          | (None, s1) \<Rightarrow>
       if MaxSignatureAttempts remoteOpts \<le> 0 then
         ((emptyDescriptor, [],
           Some (ErrorSignatureRetrievalFailed
             (Sprintf ''verifyOptions.MaxSignatureAttempts expects a positive number, got %d''
                [ArgInt (MaxSignatureAttempts remoteOpts)]))), s1)
       else
       let artifactRef = RemoteArtifactReference remoteOpts
       in case ParseReference artifactRef of
            Inl err \<Rightarrow>
              ((emptyDescriptor, [],
                Some (ErrorSignatureRetrievalFailed (Sprintf ''%v'' [ArgErr err]))), s1)
          | Inr reference \<Rightarrow>
       if reference = [] then
         ((emptyDescriptor, [],
           Some (ErrorSignatureRetrievalFailed
             (Sprintf ''reference is missing digest or tag'' []))), s1)
       else
       let s2 = s1\<lparr>calls := calls s1 @ [CallResolve artifactRef]\<rparr>
       in case Resolve repo artifactRef of
            Inl err \<Rightarrow>
              ((emptyDescriptor, [],
                Some (ErrorSignatureRetrievalFailed (Sprintf ''%v'' [ArgErr err]))), s2)
          | Inr artifactDescriptor \<Rightarrow>
       let s3 = s2\<lparr>calls := calls s2 @ [CallListSignatures artifactDescriptor]\<rparr>
       in case ListSignatures repo artifactDescriptor
                 (callback verifier repo remoteOpts artifactDescriptor) s3 of
            (err, s4) \<Rightarrow> (afterListSignatures remoteOpts artifactDescriptor err s4, s4))"

section \<open>Reading the log of calls\<close>

text \<open>The signature manifests \<open>FetchSignatureBlob\<close> was called on, in order.\<close>

fun fetchedDescs :: "call list \<Rightarrow> Descriptor list" where
  "fetchedDescs [] = []"
| "fetchedDescs (CallFetchSignatureBlob d # cs) = d # fetchedDescs cs"
| "fetchedDescs (c # cs) = fetchedDescs cs"

text \<open>The calls of \<open>verifier.Verify\<close>, in order.\<close>

fun verifyCalls :: "call list \<Rightarrow> call list" where
  "verifyCalls [] = []"
| "verifyCalls (CallVerify d b o1 # cs) = CallVerify d b o1 # verifyCalls cs"
| "verifyCalls (c # cs) = verifyCalls cs"

section \<open>What the loop of \<open>Verify\<close> obtains for one signature\<close>

text \<open>
  The results of the two calls the loop body makes for a signature manifest:
  \<open>FetchSignatureBlob\<close>, and \<open>verifier.Verify\<close> on the fetched blob with the media
  type of the blob descriptor written into the options.
\<close>

definition verificationOf ::
  "Verifier \<Rightarrow> Repository \<Rightarrow> RemoteVerifyOptions \<Rightarrow> Descriptor \<Rightarrow> Descriptor
     \<Rightarrow> error + (VerificationOutcome option \<times> error option)" where
  "verificationOf verifier repo remoteOpts artifactDescriptor sigManifestDesc =
     (case RepoFetchSignatureBlob repo sigManifestDesc of
        Inl err \<Rightarrow> Inl err
      | Inr (sigBlob, sigDesc) \<Rightarrow>
          Inr (VerifierVerify verifier artifactDescriptor sigBlob
                 ((initOpts remoteOpts)\<lparr>SignatureMediaType := MediaType sigDesc\<rparr>)))"

text \<open>
  A signature fails verification when its blob is fetched and \<open>verifier.Verify\<close>
  returns an error together with an outcome; \<open>outcomeError\<close> is then the
  \<open>Error\<close> field of that outcome.
\<close>

definition failsVerification ::
  "Verifier \<Rightarrow> Repository \<Rightarrow> RemoteVerifyOptions \<Rightarrow> Descriptor \<Rightarrow> Descriptor \<Rightarrow> bool" where
  "failsVerification verifier repo remoteOpts artifactDescriptor d =
     (case verificationOf verifier repo remoteOpts artifactDescriptor d of
        Inr (Some outcome, Some err) \<Rightarrow> True
      | _ \<Rightarrow> False)"

definition outcomeError ::
  "Verifier \<Rightarrow> Repository \<Rightarrow> RemoteVerifyOptions \<Rightarrow> Descriptor \<Rightarrow> Descriptor
     \<Rightarrow> error option" where
  "outcomeError verifier repo remoteOpts artifactDescriptor d =
     (case verificationOf verifier repo remoteOpts artifactDescriptor d of
        Inr (Some outcome, Some err) \<Rightarrow> Error outcome
      | _ \<Rightarrow> None)"

text \<open>The update of \<open>verificationFailedErr\<close> after one failed signature.\<close>

definition preferUserMetadata :: "error \<Rightarrow> error option \<Rightarrow> error" where
  "preferUserMetadata acc e = (if isUserMetadataVerificationFailed e then the e else acc)"

text \<open>
  The verifier has no \<open>SkipVerify\<close>, or \<open>SkipVerify\<close> answers without error that
  verification is not to be skipped.
\<close>

definition notSkipped :: "Verifier \<Rightarrow> RemoteVerifyOptions \<Rightarrow> bool" where
  "notSkipped verifier remoteOpts =
     (case SkipVerify verifier of
        None \<Rightarrow> True
      | Some skipVerify \<Rightarrow>
          (case skipVerify (initOpts remoteOpts) of
             (skip, verificationLevel, err) \<Rightarrow> \<not> skip \<and> err = None))"

text \<open>Invariants and relations between states of the loop, used in the proofs.\<close>

definition counted :: "int \<Rightarrow> verify_state \<Rightarrow> bool" where
  "counted m s \<longleftrightarrow>
     numOfSignatureProcessed s = int (length (fetchedDescs (calls s)))
     \<and> length (verifyCalls (calls s)) \<le> length (fetchedDescs (calls s))
     \<and> numOfSignatureProcessed s \<le> m"

definition optsInv :: "RemoteVerifyOptions \<Rightarrow> verify_state \<Rightarrow> bool" where
  "optsInv ro s \<longleftrightarrow> (opts s)\<lparr>SignatureMediaType := []\<rparr> = initOpts ro"

definition failedRun ::
  "Verifier \<Rightarrow> Repository \<Rightarrow> RemoteVerifyOptions \<Rightarrow> Descriptor \<Rightarrow> Descriptor list
     \<Rightarrow> verify_state \<Rightarrow> verify_state \<Rightarrow> bool" where
  "failedRun v r ro ad pre s s' \<longleftrightarrow>
     numOfSignatureProcessed s' = numOfSignatureProcessed s + int (length pre)
     \<and> verificationOutcomes s' = verificationOutcomes s
     \<and> optsInv ro s'
     \<and> fetchedDescs (calls s') = fetchedDescs (calls s) @ pre
     \<and> length (verifyCalls (calls s')) = length (verifyCalls (calls s)) + length pre
     \<and> verificationFailedErr s' =
         foldl preferUserMetadata (verificationFailedErr s) (map (outcomeError v r ro ad) pre)"

definition verifiedRun :: "Descriptor \<Rightarrow> VerificationOutcome option
     \<Rightarrow> verify_state \<Rightarrow> verify_state \<Rightarrow> bool" where
  "verifiedRun d oc s s' \<longleftrightarrow>
     numOfSignatureProcessed s' = numOfSignatureProcessed s + 1
     \<and> verificationOutcomes s' = verificationOutcomes s @ [oc]
     \<and> fetchedDescs (calls s') = fetchedDescs (calls s) @ [d]
     \<and> length (verifyCalls (calls s')) = length (verifyCalls (calls s)) + 1
     \<and> verificationFailedErr s' = verificationFailedErr s"

definition inOrder :: "int \<Rightarrow> Descriptor list \<Rightarrow> verify_state \<Rightarrow> verify_state \<Rightarrow> bool" where
  "inOrder m ds s s' \<longleftrightarrow>
     numOfSignatureProcessed s \<le> numOfSignatureProcessed s'
     \<and> numOfSignatureProcessed s' \<le> numOfSignatureProcessed s + int (length ds)
     \<and> fetchedDescs (calls s') =
         fetchedDescs (calls s)
           @ take (nat (numOfSignatureProcessed s' - numOfSignatureProcessed s)) ds"


definition loopOk ::
  "int \<Rightarrow> Descriptor list \<Rightarrow> verify_state \<Rightarrow> error option \<Rightarrow> verify_state \<Rightarrow> bool" where
  "loopOk m ds s res s' \<longleftrightarrow>
     inOrder m ds s s'
     \<and> (res = None \<and> numOfSignatureProcessed s' < m
          \<longrightarrow> numOfSignatureProcessed s' = numOfSignatureProcessed s + int (length ds))"


section \<open>\<open>FetchSignatureBlob\<close> of the registry client\<close>

definition maxBlobSizeLimit :: int where
  "maxBlobSizeLimit = 32 * 1024 * 1024"

definition maxManifestSizeLimit :: int where
  "maxManifestSizeLimit = 4 * 1024 * 1024"

text \<open>The media type constants of the OCI image specification.\<close>

definition MediaTypeArtifactManifest :: string where
  "MediaTypeArtifactManifest = ''application/vnd.oci.artifact.manifest.v1+json''"

definition MediaTypeImageManifest :: string where
  "MediaTypeImageManifest = ''application/vnd.oci.image.manifest.v1+json''"

text \<open>\<open>ocispec.Artifact\<close> and \<open>ocispec.Manifest\<close>: the field each path reads.\<close>

record Artifact =
  Blobs :: "Descriptor list"

record Manifest =
  Layers :: "Descriptor list"

text \<open>
  The client: \<open>content.FetchAll\<close> on its manifest store and on its blob store, and
  \<open>json.Unmarshal\<close> into the two manifest types. All four are outside the
  repository and are parameters.
\<close>

record repositoryClient =
  ManifestsFetchAll :: "Descriptor \<Rightarrow> error + bytes"
  BlobsFetchAll :: "Descriptor \<Rightarrow> error + bytes"
  UnmarshalArtifact :: "bytes \<Rightarrow> error + Artifact"
  UnmarshalManifest :: "bytes \<Rightarrow> error + Manifest"

datatype registry_call = FetchManifest Descriptor | FetchBlob Descriptor

definition getSignatureBlobsDesc ::
  "repositoryClient \<Rightarrow> Descriptor \<Rightarrow> registry_call list
     \<Rightarrow> (error + Descriptor list) \<times> registry_call list" where
  "getSignatureBlobsDesc c sigManifestDesc log =
     (if Size sigManifestDesc > maxManifestSizeLimit then
        (Inl (errorString (Sprintf ''signature manifest too large: %d bytes''
                [ArgInt (Size sigManifestDesc)])), log)
      else
        let log1 = log @ [FetchManifest sigManifestDesc]
        in case ManifestsFetchAll c sigManifestDesc of
             Inl err \<Rightarrow> (Inl err, log1)
           | Inr manifestJSON \<Rightarrow>
               if MediaType sigManifestDesc = MediaTypeArtifactManifest then
                 (case UnmarshalArtifact c manifestJSON of
                    Inl err \<Rightarrow> (Inl err, log1)
                  | Inr sigManifest \<Rightarrow> (Inr (Blobs sigManifest), log1))
               else if MediaType sigManifestDesc = MediaTypeImageManifest then
                 (case UnmarshalManifest c manifestJSON of
                    Inl err \<Rightarrow> (Inl err, log1)
                  | Inr sigManifest \<Rightarrow> (Inr (Layers sigManifest), log1))
               else
                 (Inl (errorString (Sprintf ''sigManifestDesc.MediaType requires %q or %q, got %q''
                         [ArgStr MediaTypeArtifactManifest, ArgStr MediaTypeImageManifest,
                          ArgStr (MediaType sigManifestDesc)])), log1))"

definition FetchSignatureBlob ::
  "repositoryClient \<Rightarrow> Descriptor \<Rightarrow> registry_call list
     \<Rightarrow> (error + (bytes \<times> Descriptor)) \<times> registry_call list" where
  "FetchSignatureBlob c desc log =
     (case getSignatureBlobsDesc c desc log of
        (Inl err, log1) \<Rightarrow> (Inl err, log1)
      | (Inr signatureBlobs, log1) \<Rightarrow>
          (case signatureBlobs of
             [sigDesc] \<Rightarrow>
               if Size sigDesc > maxBlobSizeLimit then
                 (Inl (errorString (Sprintf ''signature blob too large: %d bytes''
                         [ArgInt (Size sigDesc)])), log1)
               else
                 let log2 = log1 @ [FetchBlob sigDesc]
                 in (case BlobsFetchAll c sigDesc of
                       Inl err \<Rightarrow> (Inl err, log2)
                     | Inr sigBlob \<Rightarrow> (Inr (sigBlob, sigDesc), log2))
           | _ \<Rightarrow>
               (Inl (errorString
                  (Sprintf ''signature manifest requries exactly one signature envelope blob, got %d''
                     [ArgInt (int (length signatureBlobs))])), log1)))"

text \<open>The blobs the client fetched, in order.\<close>

fun fetchedBlobs :: "registry_call list \<Rightarrow> Descriptor list" where
  "fetchedBlobs [] = []"
| "fetchedBlobs (FetchBlob d # cs) = d # fetchedBlobs cs"
| "fetchedBlobs (c # cs) = fetchedBlobs cs"

section \<open>\<open>notation.Sign\<close> and \<open>notation.SignLocalContent\<close>\<close>

definition annotationX509ChainThumbprint :: string where
  "annotationX509ChainThumbprint = ''io.cncf.notary.x509chain.thumbprint#S256''"

definition reservedAnnotationPrefixes :: "string list" where
  "reservedAnnotationPrefixes = [''io.cncf.notary'']"

text \<open>\<open>strings.HasPrefix\<close>.\<close>

definition HasPrefix :: "string \<Rightarrow> string \<Rightarrow> bool" where
  "HasPrefix s p \<longleftrightarrow> length s \<ge> length p \<and> take (length p) s = p"

text \<open>
  The inner loop of \<open>addUserMetadataToDescriptor\<close> over the reserved prefixes:
  the first reserved prefix the key starts with.
\<close>

fun firstReservedPrefix :: "string \<Rightarrow> string list \<Rightarrow> string option" where
  "firstReservedPrefix k [] = None"
| "firstReservedPrefix k (reservedPrefix # rest) =
     (if HasPrefix k reservedPrefix then Some reservedPrefix else firstReservedPrefix k rest)"

text \<open>
  The \<open>range\<close> loop over the user metadata, in the order the entries are visited.
  As in the source the descriptor is returned next to the error. Writing to a nil
  map panics in Go.
\<close>

fun addUserMetadata :: "Descriptor \<Rightarrow> entries \<Rightarrow> Descriptor \<times> error option" where
  "addUserMetadata desc [] = (desc, None)"
| "addUserMetadata desc ((k, v) # rest) =
     (case firstReservedPrefix k reservedAnnotationPrefixes of
        Some reservedPrefix \<Rightarrow>
          (desc, Some (errorString
             (Sprintf ''error adding user metadata: metadata key %v has reserved prefix %v''
                [ArgStr k, ArgStr reservedPrefix])))
      | None \<Rightarrow>
          (case Annotations desc of
             None \<Rightarrow> (desc, Some (panic (Sprintf ''assignment to entry in nil map'' [])))
           | Some m \<Rightarrow>
               (case m k of
                  Some present \<Rightarrow>
                    (desc, Some (errorString
                       (Sprintf ''error adding user metadata: metadata key %v is already present in the target artifact''
                          [ArgStr k])))
                | None \<Rightarrow> addUserMetadata (desc\<lparr>Annotations := Some (m(k \<mapsto> v))\<rparr>) rest)))"

definition addUserMetadataToDescriptor :: "Descriptor \<Rightarrow> entries \<Rightarrow> Descriptor \<times> error option" where
  "addUserMetadataToDescriptor desc userMetadata =
     addUserMetadata
       (if Annotations desc = None \<and> length userMetadata > 0
        then desc\<lparr>Annotations := Some Map.empty\<rparr> else desc)
       userMetadata"

text \<open>The annotations of a descriptor as a map; the nil map has no entries.\<close>

definition annotationsOf :: "Descriptor \<Rightarrow> (string \<rightharpoonup> string)" where
  "annotationsOf desc = (case Annotations desc of None \<Rightarrow> Map.empty | Some m \<Rightarrow> m)"

text \<open>\<open>hex.EncodeToString\<close>: two lower-case hexadecimal digits for each byte.\<close>

definition hextable :: string where
  "hextable = ''0123456789abcdef''"

definition EncodeToString :: "bytes \<Rightarrow> string" where
  "EncodeToString src =
     concat (map (\<lambda>v. [hextable ! ((of_char v :: nat) div 16),
                          hextable ! ((of_char v :: nat) mod 16)]) src)"

text \<open>
  \<open>sha256.Sum256\<close> and the JSON encoding of one string are outside the repository
  and are parameters.
\<close>

record codec =
  Sum256 :: "bytes \<Rightarrow> bytes"
  jsonString :: "string \<Rightarrow> string"

fun commaSeparated :: "string list \<Rightarrow> string" where
  "commaSeparated [] = []"
| "commaSeparated [x] = x"
| "commaSeparated (x # y # rest) = x @ '','' @ commaSeparated (y # rest)"

text \<open>
  \<open>json.Marshal\<close> of a \<open>[]string\<close>, which cannot fail. The empty list stands for
  the nil slice, which is encoded as \<open>null\<close>: in \<open>generateAnnotations\<close> the slice is
  empty only when nothing was appended to the nil slice.
\<close>

definition Marshal :: "codec \<Rightarrow> string list \<Rightarrow> string" where
  "Marshal c thumbprints =
     (if thumbprints = [] then ''null''
      else ''['' @ commaSeparated (map (jsonString c) thumbprints) @ '']'')"

text \<open>The loop of \<open>generateAnnotations\<close> over the certificate chain.\<close>

fun appendThumbprints :: "codec \<Rightarrow> Certificate list \<Rightarrow> string list \<Rightarrow> string list" where
  "appendThumbprints c [] thumbprints = thumbprints"
| "appendThumbprints c (cert # rest) thumbprints =
     appendThumbprints c rest (thumbprints @ [EncodeToString (Sum256 c (Raw cert))])"

text \<open>\<open>signerInfo\<close> is a pointer: dereferencing nil panics.\<close>

definition generateAnnotations ::
  "codec \<Rightarrow> SignerInfo option \<Rightarrow> annotations \<Rightarrow> error + (string \<rightharpoonup> string)" where
  "generateAnnotations c signerInfo ann =
     (case signerInfo of
        None \<Rightarrow> Inl (panic (Sprintf ''invalid memory address or nil pointer dereference'' []))
      | Some si \<Rightarrow>
          let thumbprints = appendThumbprints c (CertificateChain si) [];
              val = Marshal c thumbprints;
              annotations = (case ann of None \<Rightarrow> Map.empty | Some m \<Rightarrow> m)
          in Inr (annotations(annotationX509ChainThumbprint \<mapsto> val)))"

record SignOptions =
  SignArtifactReference :: string
  SignSignatureMediaType :: string
  ExpiryDuration :: int
  SignPluginConfig :: entries
  SigningAgent :: string

record RemoteSignOptions =
  EmbeddedSignOptions :: SignOptions
  SignUserMetadata :: entries

record LocalSignOptions =
  LocalSignatureMediaType :: string
  LocalExpiryDuration :: int
  LocalPluginConfig :: entries
  LocalSigningAgent :: string
  LocalUserMetadata :: entries

text \<open>
  The \<open>Signer\<close> interface value; \<open>PluginAnnotations\<close> is \<open>None\<close> when the dynamic
  type does not implement \<open>signerAnnotation\<close>.
\<close>

record Signer =
  SignerSign :: "Descriptor \<Rightarrow> SignOptions \<Rightarrow> error + (bytes \<times> SignerInfo option)"
  PluginAnnotations :: "annotations option"

datatype sign_call =
    CallSignResolve string
  | CallSignerSign Descriptor SignOptions
  | CallPushSignature string bytes Descriptor annotations

definition Second :: int where
  "Second = 1000000000"

text \<open>
  \<open>Sign\<close>, with the log of the calls on the repository and the signer. The
  repository is a pointer-like interface value and may be nil. Logging is left out.
\<close>

definition Sign ::
  "codec \<Rightarrow> parser \<Rightarrow> Signer \<Rightarrow> Repository option \<Rightarrow> RemoteSignOptions
     \<Rightarrow> (error + Descriptor) \<times> sign_call list" where
  "Sign c ParseReference signer repo remoteOpts =
    (let signOpts = EmbeddedSignOptions remoteOpts in
     if ExpiryDuration signOpts < 0 then
       (Inl (errorString (Sprintf ''expiry duration cannot be a negative value'' [])), [])
     else if ExpiryDuration signOpts mod Second \<noteq> 0 then
       (Inl (errorString (Sprintf ''expiry duration supports minimum granularity of seconds'' [])), [])
     else
       let artifactRef = SignArtifactReference signOpts
       in case ParseReference artifactRef of
            Inl err \<Rightarrow> (Inl err, [])
          | Inr reference \<Rightarrow>
       if reference = [] then
         (Inl (errorString (Sprintf ''reference is missing digest or tag'' [])), [])
       else case repo of
            None \<Rightarrow> (Inl (errorString (Sprintf ''repo cannot be nil'' [])), [])
          | Some r \<Rightarrow>
       let log1 = [CallSignResolve artifactRef]
       in case Resolve r artifactRef of
            Inl err \<Rightarrow> (Inl err, log1)
          | Inr resolved \<Rightarrow>
       (case addUserMetadataToDescriptor resolved (SignUserMetadata remoteOpts) of
            (d, Some err) \<Rightarrow> (Inl err, log1)
          | (targetDesc, None) \<Rightarrow>
       let log2 = log1 @ [CallSignerSign targetDesc signOpts]
       in case SignerSign signer targetDesc signOpts of
            Inl err \<Rightarrow> (Inl err, log2)
          | Inr (sig, signerInfo) \<Rightarrow>
       let pluginAnnotations =
             (case PluginAnnotations signer of None \<Rightarrow> None | Some ann \<Rightarrow> ann)
       in case generateAnnotations c signerInfo pluginAnnotations of
            Inl err \<Rightarrow> (Inl err, log2)
          | Inr annotations \<Rightarrow>
       let log3 = log2 @ [CallPushSignature (SignSignatureMediaType signOpts) sig targetDesc
                            (Some annotations)]
       in case RepoPushSignature r (SignSignatureMediaType signOpts) sig targetDesc
                 (Some annotations) of
            Inl err \<Rightarrow> (Inl (ErrorPushSignatureFailed (Sprintf ''%v'' [ArgErr err])), log3)
          | Inr pushed \<Rightarrow> (Inr targetDesc, log3)))"

definition SignLocalContent ::
  "codec \<Rightarrow> Descriptor \<Rightarrow> Signer \<Rightarrow> LocalSignOptions
     \<Rightarrow> (error + (Descriptor \<times> bytes \<times> (string \<rightharpoonup> string))) \<times> sign_call list" where
  "SignLocalContent c artifactDescriptor signer localOpts =
    (if LocalExpiryDuration localOpts < 0 then
       (Inl (ErrorSignLocalContent (Sprintf ''expiry duration cannot be a negative value'' [])), [])
     else if LocalExpiryDuration localOpts mod Second \<noteq> 0 then
       (Inl (ErrorSignLocalContent
          (Sprintf ''expiry duration supports minimum granularity of seconds'' [])), [])
     else
       case addUserMetadataToDescriptor artifactDescriptor (LocalUserMetadata localOpts) of
            (d, Some err) \<Rightarrow> (Inl (ErrorSignLocalContent (Sprintf ''%v'' [ArgErr err])), [])
          | (targetDesc, None) \<Rightarrow>
       let signOpts = \<lparr>SignArtifactReference = [],
                        SignSignatureMediaType = LocalSignatureMediaType localOpts,
                        ExpiryDuration = LocalExpiryDuration localOpts,
                        SignPluginConfig = LocalPluginConfig localOpts,
                        SigningAgent = LocalSigningAgent localOpts\<rparr>;
           log1 = [CallSignerSign targetDesc signOpts]
       in case SignerSign signer targetDesc signOpts of
            Inl err \<Rightarrow> (Inl (ErrorSignLocalContent (Sprintf ''%v'' [ArgErr err])), log1)
          | Inr (sig, signerInfo) \<Rightarrow>
       let pluginAnnotations =
             (case PluginAnnotations signer of None \<Rightarrow> None | Some ann \<Rightarrow> ann)
       in case generateAnnotations c signerInfo pluginAnnotations of
            Inl err \<Rightarrow> (Inl (ErrorSignLocalContent (Sprintf ''%v'' [ArgErr err])), log1)
          | Inr annotations \<Rightarrow> (Inr (targetDesc, sig, annotations), log1))"

text \<open>The descriptors handed to the signer, and the signatures pushed.\<close>

fun signedDescs :: "sign_call list \<Rightarrow> Descriptor list" where
  "signedDescs [] = []"
| "signedDescs (CallSignerSign d so # cs) = d # signedDescs cs"
| "signedDescs (c # cs) = signedDescs cs"

fun pushedSignatures :: "sign_call list \<Rightarrow> bytes list" where
  "pushedSignatures [] = []"
| "pushedSignatures (CallPushSignature mt sig d ann # cs) = sig # pushedSignatures cs"
| "pushedSignatures (c # cs) = pushedSignatures cs"

text \<open>A key of the user metadata that the loop rejects for a descriptor.\<close>

definition reservedKey :: "string \<Rightarrow> bool" where
  "reservedKey k \<longleftrightarrow> HasPrefix k ''io.cncf.notary''"

section \<open>\<open>PluginSigner.Sign\<close> of the JWS package\<close>

text \<open>
  The capability names are constants of the plugin package; only their being
  different matters here.
\<close>

datatype Capability =
  CapabilitySignatureGenerator | CapabilityEnvelopeGenerator | CapabilityOther string

record Metadata =
  MetadataName :: string
  MetadataVersion :: string
  Capabilities :: "Capability list"

text \<open>
  Modelled from the spec: \<open>Metadata.HasCapability\<close> of the plugin package is not
  among the sources. Capability discovery is a set: the metadata has a capability
  when it lists it.
\<close>

definition HasCapability :: "Metadata \<Rightarrow> Capability \<Rightarrow> bool" where
  "HasCapability metadata capability \<longleftrightarrow> capability \<in> set (Capabilities metadata)"

datatype command =
  CommandGetMetadata | CommandDescribeKey | CommandGenerateSignature | CommandGenerateEnvelope

text \<open>
  What a runner returns: the metadata, or a value of another type, given by the
  name of its type.
\<close>

datatype response = MetadataResponse Metadata | OtherResponse string

record PluginSigner =
  Run :: "command \<Rightarrow> error + response"
  KeyID :: string
  SignerPluginConfig :: entries

definition generateSignatureEnvelope ::
  "PluginSigner \<Rightarrow> Descriptor \<Rightarrow> SignOptions \<Rightarrow> command list
     \<Rightarrow> (error + bytes) \<times> command list" where
  "generateSignatureEnvelope s desc so log =
     (Inl (errorString (Sprintf ''not implemented'' [])), log)"

text \<open>
  \<open>PluginSigner.Sign\<close>, with the log of the commands run. \<open>Metadata.Validate\<close> is not
  among the sources and is the parameter \<open>Validate\<close>. The signature-generator
  path \<open>generateSignature\<close> rests on the JWT and X.509 libraries and is the
  parameter \<open>generateSignature\<close>; it receives and returns the log.
\<close>

definition PluginSigner_Sign ::
  "(Metadata \<Rightarrow> error option)
     \<Rightarrow> (PluginSigner \<Rightarrow> Descriptor \<Rightarrow> SignOptions \<Rightarrow> command list
            \<Rightarrow> (error + bytes) \<times> command list)
     \<Rightarrow> PluginSigner \<Rightarrow> Descriptor \<Rightarrow> SignOptions \<Rightarrow> (error + bytes) \<times> command list" where
  "PluginSigner_Sign Validate generateSignature s desc so =
     (let log = [CommandGetMetadata]
      in case Run s CommandGetMetadata of
           Inl err \<Rightarrow> (Inl (errorString (Sprintf ''metadata command failed: %w'' [ArgErr err])), log)
         | Inr out \<Rightarrow>
             (case out of
                OtherResponse typeName \<Rightarrow>
                  (Inl (errorString
                     (Sprintf (''plugin runner returned incorrect get-plugin-metadata response type ''
                                @ [CHR 0x27] @ ''%T'' @ [CHR 0x27])
                        [ArgStr typeName])), log)
              | MetadataResponse metadata \<Rightarrow>
                  (case Validate metadata of
                     Some err \<Rightarrow>
                       (Inl (errorString (Sprintf ''invalid plugin metadata: %w'' [ArgErr err])), log)
                   | None \<Rightarrow>
                       if HasCapability metadata CapabilitySignatureGenerator then
                         generateSignature s desc so log
                       else if HasCapability metadata CapabilityEnvelopeGenerator then
                         generateSignatureEnvelope s desc so log
                       else
                         (Inl (errorString
                            (Sprintf ''plugin does not have signing capabilities'' [])), log))))"

section \<open>\<open>LoadX509TrustStore\<close>\<close>

record fileMode =
  ModeIsDir :: bool
  ModeIsSymlink :: bool

record dirEntry =
  EntryName :: string
  EntryIsDir :: bool
  EntryIsSymlink :: bool

text \<open>
  The file system and the libraries the loader calls: \<open>os.Stat\<close> with
  \<open>os.IsNotExist\<close>, \<open>os.Lstat\<close>, \<open>os.ReadDir\<close>, \<open>corex509.ReadCertificateFile\<close>,
  \<open>filepath.Join\<close>, \<open>filepath.Base\<close>, \<open>filepath.Dir\<close> and
  \<open>Certificate.CheckSignatureFrom\<close>. All are parameters.
\<close>

record filesystem =
  StatNotExist :: "string \<Rightarrow> bool"
  Lstat :: "string \<Rightarrow> error + fileMode"
  ReadDir :: "string \<Rightarrow> error + dirEntry list"
  ReadCertificateFile :: "string \<Rightarrow> error + Certificate list"
  Join :: "string \<Rightarrow> string \<Rightarrow> string"
  Base :: "string \<Rightarrow> string"
  Dir :: "string \<Rightarrow> string"
  CheckSignatureFrom :: "Certificate \<Rightarrow> Certificate \<Rightarrow> error option"

record X509TrustStore =
  Name :: string
  Prefix :: string
  Path :: string
  Certificates :: "Certificate list"

definition isSelfSigned :: "filesystem \<Rightarrow> Certificate \<Rightarrow> bool" where
  "isSelfSigned fs cert \<longleftrightarrow>
     CheckSignatureFrom fs cert cert = None \<and> RawSubject cert = RawIssuer cert"

text \<open>The loop of \<open>validateCerts\<close> over several certificates: the first that is no CA.\<close>

fun firstNonCA :: "Certificate list \<Rightarrow> Certificate option" where
  "firstNonCA [] = None"
| "firstNonCA (cert # rest) = (if \<not> IsCA cert then Some cert else firstNonCA rest)"

definition validateCerts :: "filesystem \<Rightarrow> Certificate list \<Rightarrow> string \<Rightarrow> error option" where
  "validateCerts fs certs path =
     (case certs of
        [] \<Rightarrow>
          Some (errorString
            (Sprintf ''could not parse a certificate from %q, every file in a trust store must have a PEM or DER certificate in it''
               [ArgStr path]))
      | [cert] \<Rightarrow>
          if \<not> isSelfSigned fs cert \<and> \<not> IsCA cert then
            Some (errorString
              (Sprintf ''single certificate from %q is not a self-signed certificate or CA certificate''
                 [ArgStr path]))
          else None
      | _ \<Rightarrow>
          (case firstNonCA certs of
             Some cert \<Rightarrow>
               Some (errorString
                 (Sprintf ''certificate with subject %q from file %q is not a CA certificate, only CA certificates (BasicConstraint CA=True) are allowed''
                    [ArgStr (Subject cert), ArgStr path]))
           | None \<Rightarrow> None))"

text \<open>The loop of \<open>LoadX509TrustStore\<close> over the directory entries.\<close>

fun loadFiles ::
  "filesystem \<Rightarrow> string \<Rightarrow> dirEntry list \<Rightarrow> Certificate list \<Rightarrow> error + Certificate list" where
  "loadFiles fs path [] certificates = Inr certificates"
| "loadFiles fs path (file # files) certificates =
     (let joinedPath = Join fs path (EntryName file)
      in if EntryIsDir file \<or> EntryIsSymlink file then
           Inl (errorString
             (Sprintf ''%q is not a regular file (directories or symlinks are not supported)''
                [ArgStr joinedPath]))
         else case ReadCertificateFile fs joinedPath of
                Inl err \<Rightarrow>
                  Inl (errorString (Sprintf ''error while reading certificates from %q: %w''
                         [ArgStr joinedPath, ArgErr err]))
              | Inr certs \<Rightarrow>
                  (case validateCerts fs certs joinedPath of
                     Some err \<Rightarrow> Inl err
                   | None \<Rightarrow> loadFiles fs path files (certificates @ certs)))"

definition LoadX509TrustStore :: "filesystem \<Rightarrow> string \<Rightarrow> error + X509TrustStore" where
  "LoadX509TrustStore fs path =
     (if StatNotExist fs path then
        Inl (errorString (Sprintf ''%q does not exist'' [ArgStr path]))
      else case Lstat fs path of
             Inl err \<Rightarrow> Inl err
           | Inr mode \<Rightarrow>
      if \<not> ModeIsDir mode \<or> ModeIsSymlink mode then
        Inl (errorString
          (Sprintf ''%q is not a regular directory (symlinks are not supported)'' [ArgStr path]))
      else case ReadDir fs path of
             Inl err \<Rightarrow> Inl err
           | Inr files \<Rightarrow>
      (case loadFiles fs path files [] of
             Inl err \<Rightarrow> Inl err
           | Inr certificates \<Rightarrow>
      if length certificates < 1 then
        Inl (errorString (Sprintf ''trust store %q has no x509 certificates'' [ArgStr path]))
      else Inr \<lparr>Name = Base fs path, Prefix = Base fs (Dir fs path), Path = path,
                Certificates = certificates\<rparr>))"

text \<open>The certificates a directory entry contributes; none when the file cannot be read.\<close>

definition fileCerts :: "filesystem \<Rightarrow> string \<Rightarrow> dirEntry \<Rightarrow> Certificate list" where
  "fileCerts fs path file =
     (case ReadCertificateFile fs (Join fs path (EntryName file)) of
        Inl err \<Rightarrow> [] | Inr certs \<Rightarrow> certs)"

section \<open>Sample registry, verifiers and options\<close>

definition sampleArtifact :: Descriptor where
  "sampleArtifact = \<lparr>MediaType = ''application/vnd.oci.image.manifest.v1+json'',
     Digest = ''sha256:aaa'', Size = 528, Annotations = None\<rparr>"

definition sig1 :: Descriptor where
  "sig1 = \<lparr>MediaType = ''application/vnd.oci.image.manifest.v1+json'',
     Digest = ''sha256:s1'', Size = 300, Annotations = None\<rparr>"

definition sig2 :: Descriptor where
  "sig2 = \<lparr>MediaType = ''application/vnd.oci.image.manifest.v1+json'',
     Digest = ''sha256:s2'', Size = 300, Annotations = None\<rparr>"

definition sig3 :: Descriptor where
  "sig3 = \<lparr>MediaType = ''application/vnd.oci.image.manifest.v1+json'',
     Digest = ''sha256:s3'', Size = 300, Annotations = None\<rparr>"

definition sampleBlobDesc :: Descriptor where
  "sampleBlobDesc = \<lparr>MediaType = ''application/jose+json'',
     Digest = ''sha256:e'', Size = 100, Annotations = None\<rparr>"

text \<open>
  A remote repository that resolves every reference to \<open>sampleArtifact\<close>, lists the
  given pages, and serves for each signature manifest a blob that spells the
  digest of the manifest.
\<close>

definition sampleRepo :: "Descriptor list list \<Rightarrow> Repository" where
  "sampleRepo pages = \<lparr>isRemote = True,
     Resolve = (\<lambda>reference. Inr sampleArtifact),
     Referrers = (\<lambda>subject. (pages, None)),
     RepoFetchSignatureBlob = (\<lambda>d. Inr (Digest d, sampleBlobDesc)),
     RepoPushSignature = (\<lambda>mediaType blob subject ann. Inr (sampleBlobDesc, sig1))\<rparr>"

text \<open>The same repository, except that fetching the blob of \<open>sig1\<close> fails.\<close>

definition brokenRepo :: "Descriptor list list \<Rightarrow> Repository" where
  "brokenRepo pages = (sampleRepo pages)\<lparr>RepoFetchSignatureBlob :=
     (\<lambda>d. if Digest d = ''sha256:s1'' then Inl (errorString (Sprintf ''connection reset'' []))
          else Inr (Digest d, sampleBlobDesc))\<rparr>"

definition sampleParse :: parser where
  "sampleParse artifactRef = Inr ''v1''"

definition sampleOpts :: "int \<Rightarrow> RemoteVerifyOptions" where
  "sampleOpts n = \<lparr>RemoteArtifactReference = ''registry.io/foo:v1'',
     RemotePluginConfig = [], MaxSignatureAttempts = n, RemoteUserMetadata = []\<rparr>"

definition strictLevel :: VerificationLevel where
  "strictLevel = \<lparr>LevelName = ''strict'', Enforcement = [(TypeIntegrity, ActionEnforce)]\<rparr>"

definition skipLevel :: VerificationLevel where
  "skipLevel = \<lparr>LevelName = ''skip'', Enforcement = [(TypeIntegrity, ActionSkip)]\<rparr>"

definition passedOutcome :: "bytes \<Rightarrow> VerificationOutcome" where
  "passedOutcome sigBlob = \<lparr>RawSignature = Some sigBlob, OutcomeEnvelopeContent = None,
     OutcomeVerificationLevel = Some strictLevel, VerificationResults = [], Error = None\<rparr>"

definition failedOutcome :: "bytes \<Rightarrow> error \<Rightarrow> VerificationOutcome" where
  "failedOutcome sigBlob err = \<lparr>RawSignature = Some sigBlob, OutcomeEnvelopeContent = None,
     OutcomeVerificationLevel = Some strictLevel, VerificationResults = [], Error = Some err\<rparr>"

definition integrityError :: error where
  "integrityError = errorString (Sprintf ''signature is invalid'' [])"

definition metadataError :: error where
  "metadataError = ErrorUserMetadataVerificationFailed (Sprintf ''unable to find specified metadata'' [])"

text \<open>A verifier without \<open>SkipVerify\<close> that accepts the blob of \<open>sig2\<close> only.\<close>

definition secondOnlyVerifier :: Verifier where
  "secondOnlyVerifier = \<lparr>
     VerifierVerify = (\<lambda>desc sigBlob vo.
       if sigBlob = ''sha256:s2'' then (Some (passedOutcome sigBlob), None)
       else (Some (failedOutcome sigBlob integrityError), Some integrityError)),
     SkipVerify = None\<rparr>"

text \<open>A verifier that rejects every blob for its user metadata.\<close>

definition metadataVerifier :: Verifier where
  "metadataVerifier = \<lparr>
     VerifierVerify = (\<lambda>desc sigBlob vo.
       (Some (failedOutcome sigBlob metadataError), Some metadataError)),
     SkipVerify = None\<rparr>"

text \<open>A verifier whose trust policy says skip.\<close>

definition skippingVerifier :: Verifier where
  "skippingVerifier = \<lparr>
     VerifierVerify = (\<lambda>desc sigBlob vo. (None, Some integrityError)),
     SkipVerify = Some (\<lambda>vo. (True, Some skipLevel, None))\<rparr>"

section \<open>Properties of the signature loop\<close>


lemma fetchedDescs_append: "fetchedDescs (xs @ ys) = fetchedDescs xs @ fetchedDescs ys"
  by (induction xs rule: fetchedDescs.induct) simp_all

lemma verifyCalls_append: "verifyCalls (xs @ ys) = verifyCalls xs @ verifyCalls ys"
  by (induction xs rule: verifyCalls.induct) simp_all

lemma optsInv_update:
  assumes "optsInv ro s"
  shows "(opts s)\<lparr>SignatureMediaType := m\<rparr> = (initOpts ro)\<lparr>SignatureMediaType := m\<rparr>"
proof -
  have "(opts s)\<lparr>SignatureMediaType := m\<rparr> =
        ((opts s)\<lparr>SignatureMediaType := []\<rparr>)\<lparr>SignatureMediaType := m\<rparr>"
    by simp
  with assms show ?thesis by (simp only: optsInv_def)
qed

lemma failedRun_Nil: "optsInv ro s \<Longrightarrow> failedRun v r ro ad [] s s"
  by (simp add: failedRun_def)

lemma failedRun_trans:
  "failedRun v r ro ad xs s s1 \<Longrightarrow> failedRun v r ro ad ys s1 s2 \<Longrightarrow>
   failedRun v r ro ad (xs @ ys) s s2"
  by (simp add: failedRun_def)

lemma processSignatures_fail_step:
  assumes f: "failsVerification v r ro ad d"
    and lim: "numOfSignatureProcessed s < MaxSignatureAttempts ro"
    and inv: "optsInv ro s"
  shows "\<exists>s1. processSignatures v r ro ad (d # rest) s = processSignatures v r ro ad rest s1
           \<and> failedRun v r ro ad [d] s s1"
proof -
  from f obtain blob sd oc e where
    fetch: "RepoFetchSignatureBlob r d = Inr (blob, sd)"
    and ver: "VerifierVerify v ad blob ((initOpts ro)\<lparr>SignatureMediaType := MediaType sd\<rparr>)
                = (Some oc, Some e)"
    by (auto simp: failsVerification_def verificationOf_def
             split: sum.splits prod.splits option.splits)
  have oe: "outcomeError v r ro ad d = Error oc"
    by (simp add: outcomeError_def verificationOf_def fetch ver)
  note upd = optsInv_update [OF inv, of "MediaType sd"]
  define s2 where "s2 = s\<lparr>numOfSignatureProcessed := numOfSignatureProcessed s + 1,
      opts := (initOpts ro)\<lparr>SignatureMediaType := MediaType sd\<rparr>,
      calls := calls s @ [CallFetchSignatureBlob d,
        CallVerify ad blob ((initOpts ro)\<lparr>SignatureMediaType := MediaType sd\<rparr>)]\<rparr>"
  define s1 where "s1 = (if isUserMetadataVerificationFailed (Error oc)
      then s2\<lparr>verificationFailedErr := the (Error oc)\<rparr> else s2)"
  have "processSignatures v r ro ad (d # rest) s = processSignatures v r ro ad rest s1"
    using lim by (simp add: fetch ver upd Let_def s1_def s2_def)
  moreover have "failedRun v r ro ad [d] s s1"
    by (simp add: failedRun_def oe fetchedDescs_append verifyCalls_append
          preferUserMetadata_def optsInv_def s1_def s2_def initOpts_def)
  ultimately show ?thesis by blast
qed

lemma processSignatures_failed_prefix:
  assumes "\<forall>d\<in>set pre. failsVerification v r ro ad d"
    and "numOfSignatureProcessed s + int (length pre) \<le> MaxSignatureAttempts ro"
    and "optsInv ro s"
  shows "\<exists>s'. processSignatures v r ro ad (pre @ rest) s = processSignatures v r ro ad rest s'
           \<and> failedRun v r ro ad pre s s'"
  using assms
proof (induction pre arbitrary: s)
  case Nil
  then show ?case by (auto intro: failedRun_Nil)
next
  case (Cons d pre)
  from Cons.prems have f: "failsVerification v r ro ad d"
    and lim: "numOfSignatureProcessed s < MaxSignatureAttempts ro"
    by auto
  from processSignatures_fail_step [OF f lim Cons.prems(3), of "pre @ rest"]
  obtain s1 where
    step: "processSignatures v r ro ad (d # pre @ rest) s = processSignatures v r ro ad (pre @ rest) s1"
    and run1: "failedRun v r ro ad [d] s s1"
    by blast
  from run1 have n1: "numOfSignatureProcessed s1 = numOfSignatureProcessed s + 1"
    and inv1: "optsInv ro s1"
    by (simp_all add: failedRun_def)
  from Cons.prems n1 have lim1:
    "numOfSignatureProcessed s1 + int (length pre) \<le> MaxSignatureAttempts ro" by simp
  from Cons.IH [OF _ lim1 inv1] Cons.prems(1)
  obtain s' where
    rest: "processSignatures v r ro ad (pre @ rest) s1 = processSignatures v r ro ad rest s'"
    and run2: "failedRun v r ro ad pre s1 s'"
    by auto
  from failedRun_trans [OF run1 run2] step rest
  show ?case by auto
qed

lemma processSignatures_failed_all:
  assumes "\<forall>d\<in>set ds. failsVerification v r ro ad d"
    and "numOfSignatureProcessed s + int (length ds) \<le> MaxSignatureAttempts ro"
    and "optsInv ro s"
  shows "\<exists>s'. processSignatures v r ro ad ds s = (None, s') \<and> failedRun v r ro ad ds s s'"
  using processSignatures_failed_prefix [OF assms, of "[]"] by simp

lemma processSignatures_at_limit:
  "MaxSignatureAttempts ro \<le> numOfSignatureProcessed s \<Longrightarrow>
   processSignatures v r ro ad ds s = (None, s)"
  by (cases ds) simp_all

lemma callback_failed_page:
  assumes "\<forall>d\<in>set p. failsVerification v r ro ad d"
    and "numOfSignatureProcessed s + int (length p) < MaxSignatureAttempts ro"
    and "optsInv ro s"
  shows "\<exists>s'. callback v r ro ad p s = (None, s') \<and> failedRun v r ro ad p s s'"
proof -
  from assms(2) have "numOfSignatureProcessed s + int (length p) \<le> MaxSignatureAttempts ro"
    by simp
  from processSignatures_failed_all [OF assms(1) this assms(3)]
  obtain s' where loop: "processSignatures v r ro ad p s = (None, s')"
    and run: "failedRun v r ro ad p s s'" by blast
  from run assms(2) have "numOfSignatureProcessed s' < MaxSignatureAttempts ro"
    by (simp add: failedRun_def)
  with loop run show ?thesis by (simp add: callback_def)
qed

lemma deliverPages_all_failed:
  assumes "\<forall>d\<in>set (concat pages). failsVerification v r ro ad d"
    and "numOfSignatureProcessed s + int (length (concat pages)) < MaxSignatureAttempts ro"
    and "optsInv ro s"
  shows "\<exists>s'. deliverPages (callback v r ro ad) pages final s = (final, s')
           \<and> failedRun v r ro ad (concat pages) s s'"
  using assms
proof (induction pages arbitrary: s)
  case Nil
  then show ?case by (simp add: failedRun_Nil)
next
  case (Cons p ps)
  from Cons.prems have fp: "\<forall>d\<in>set p. failsVerification v r ro ad d"
    and fps: "\<forall>d\<in>set (concat ps). failsVerification v r ro ad d"
    and lp: "numOfSignatureProcessed s + int (length p) < MaxSignatureAttempts ro"
    by auto
  from callback_failed_page [OF fp lp Cons.prems(3)]
  obtain s1 where cb: "callback v r ro ad p s = (None, s1)"
    and run1: "failedRun v r ro ad p s s1" by blast
  from run1 Cons.prems(2) have l1:
    "numOfSignatureProcessed s1 + int (length (concat ps)) < MaxSignatureAttempts ro"
    and inv1: "optsInv ro s1"
    by (simp_all add: failedRun_def)
  from Cons.IH [OF fps l1 inv1]
  obtain s' where rest: "deliverPages (callback v r ro ad) ps final s1 = (final, s')"
    and run2: "failedRun v r ro ad (concat ps) s1 s'" by blast
  from failedRun_trans [OF run1 run2] cb rest show ?case by simp
qed

lemma processSignatures_success_step:
  assumes ok: "verificationOf v r ro ad d = Inr (oc, None)"
    and lim: "numOfSignatureProcessed s < MaxSignatureAttempts ro"
    and inv: "optsInv ro s"
  shows "\<exists>s'. processSignatures v r ro ad (d # rest) s = (Some errDoneVerification, s')
           \<and> verifiedRun d oc s s'"
proof -
  from ok obtain blob sd where
    fetch: "RepoFetchSignatureBlob r d = Inr (blob, sd)"
    and ver: "VerifierVerify v ad blob ((initOpts ro)\<lparr>SignatureMediaType := MediaType sd\<rparr>)
                = (oc, None)"
    by (auto simp: verificationOf_def split: sum.splits prod.splits)
  note upd = optsInv_update [OF inv, of "MediaType sd"]
  show ?thesis
    using lim
    by (simp add: fetch ver upd Let_def verifiedRun_def fetchedDescs_append verifyCalls_append)
qed

lemma callback_success_page:
  assumes fp: "\<forall>x\<in>set pre. failsVerification v r ro ad x"
    and ok: "verificationOf v r ro ad d = Inr (oc, None)"
    and lim: "numOfSignatureProcessed s + int (length pre) < MaxSignatureAttempts ro"
    and inv: "optsInv ro s"
  shows "\<exists>s' s''. callback v r ro ad (pre @ d # rest) s = (Some errDoneVerification, s'')
           \<and> failedRun v r ro ad pre s s' \<and> verifiedRun d oc s' s''"
proof -
  from lim have "numOfSignatureProcessed s + int (length pre) \<le> MaxSignatureAttempts ro"
    by simp
  from processSignatures_failed_prefix [OF fp this inv, of "d # rest"]
  obtain s' where
    loop: "processSignatures v r ro ad (pre @ d # rest) s = processSignatures v r ro ad (d # rest) s'"
    and run: "failedRun v r ro ad pre s s'" by blast
  from run lim have l': "numOfSignatureProcessed s' < MaxSignatureAttempts ro"
    and inv': "optsInv ro s'" by (simp_all add: failedRun_def)
  from processSignatures_success_step [OF ok l' inv', of rest]
  obtain s'' where fin: "processSignatures v r ro ad (d # rest) s' = (Some errDoneVerification, s'')"
    and vr: "verifiedRun d oc s' s''" by blast
  from loop fin have "callback v r ro ad (pre @ d # rest) s = (Some errDoneVerification, s'')"
    by (simp add: callback_def)
  with run vr show ?thesis by blast
qed

lemma deliverPages_first_success:
  assumes "concat pages = pre @ d # post"
    and "\<forall>x\<in>set pre. failsVerification v r ro ad x"
    and "verificationOf v r ro ad d = Inr (oc, None)"
    and "numOfSignatureProcessed s + int (length pre) < MaxSignatureAttempts ro"
    and "optsInv ro s"
  shows "\<exists>s' s''. deliverPages (callback v r ro ad) pages final s = (Some errDoneVerification, s'')
           \<and> failedRun v r ro ad pre s s' \<and> verifiedRun d oc s' s''"
  using assms
proof (induction pages arbitrary: s pre)
  case Nil
  then show ?case by simp
next
  case (Cons p ps)
  from Cons.prems(1) have "p @ concat ps = pre @ d # post" by simp
  then obtain ws where ws:
    "(p = pre @ ws \<and> ws @ concat ps = d # post) \<or> (p @ ws = pre \<and> concat ps = ws @ d # post)"
    by (auto simp: append_eq_append_conv2)
  have "(\<exists>us. p = pre @ d # us) \<or> (\<exists>us. pre = p @ us \<and> concat ps = us @ d # post)"
    using ws by (cases ws) auto
  then consider
    (here) us where "p = pre @ d # us"
    | (later) us where "pre = p @ us" "concat ps = us @ d # post"
    by blast
  then show ?case
  proof cases
    case here
    from callback_success_page [OF Cons.prems(2,3,4,5), of us] here
    show ?thesis by auto
  next
    case later
    from Cons.prems(2) later have fp: "\<forall>x\<in>set p. failsVerification v r ro ad x"
      and fus: "\<forall>x\<in>set us. failsVerification v r ro ad x" by auto
    from Cons.prems(4) later have lp:
      "numOfSignatureProcessed s + int (length p) < MaxSignatureAttempts ro" by simp
    from callback_failed_page [OF fp lp Cons.prems(5)]
    obtain s1 where cb: "callback v r ro ad p s = (None, s1)"
      and run1: "failedRun v r ro ad p s s1" by blast
    from run1 Cons.prems(4) later have l1:
      "numOfSignatureProcessed s1 + int (length us) < MaxSignatureAttempts ro"
      and inv1: "optsInv ro s1" by (simp_all add: failedRun_def)
    from Cons.IH [OF later(2) fus Cons.prems(3) l1 inv1]
    obtain s' s'' where
      rest: "deliverPages (callback v r ro ad) ps final s1 = (Some errDoneVerification, s'')"
      and run2: "failedRun v r ro ad us s1 s'" and vr: "verifiedRun d oc s' s''" by blast
    from failedRun_trans [OF run1 run2] later have "failedRun v r ro ad pre s s'" by simp
    with cb rest vr show ?thesis by auto
  qed
qed

lemma callback_limit_page:
  assumes fp: "\<forall>x\<in>set pre. failsVerification v r ro ad x"
    and lim: "numOfSignatureProcessed s + int (length pre) = MaxSignatureAttempts ro"
    and inv: "optsInv ro s"
  shows "\<exists>s'. callback v r ro ad (pre @ rest) s = (Some (errExceededMaxVerificationLimit ro), s')
           \<and> failedRun v r ro ad pre s s'"
proof -
  from lim have "numOfSignatureProcessed s + int (length pre) \<le> MaxSignatureAttempts ro"
    by simp
  from processSignatures_failed_prefix [OF fp this inv, of rest]
  obtain s' where
    loop: "processSignatures v r ro ad (pre @ rest) s = processSignatures v r ro ad rest s'"
    and run: "failedRun v r ro ad pre s s'" by blast
  from run lim have at: "MaxSignatureAttempts ro \<le> numOfSignatureProcessed s'"
    by (simp add: failedRun_def)
  from loop processSignatures_at_limit [OF at, of v r ad rest] at
  have "callback v r ro ad (pre @ rest) s = (Some (errExceededMaxVerificationLimit ro), s')"
    by (simp add: callback_def)
  with run show ?thesis by blast
qed

lemma deliverPages_limit:
  assumes "concat pages = pre @ post"
    and "\<forall>x\<in>set pre. failsVerification v r ro ad x"
    and "numOfSignatureProcessed s + int (length pre) = MaxSignatureAttempts ro"
    and "pre \<noteq> []"
    and "optsInv ro s"
  shows "\<exists>s'. deliverPages (callback v r ro ad) pages final s =
             (Some (errExceededMaxVerificationLimit ro), s')
           \<and> failedRun v r ro ad pre s s'"
  using assms
proof (induction pages arbitrary: s pre)
  case Nil
  then show ?case by simp
next
  case (Cons p ps)
  from Cons.prems(1) have "p @ concat ps = pre @ post" by simp
  then obtain ws where ws:
    "(p = pre @ ws \<and> ws @ concat ps = post) \<or> (p @ ws = pre \<and> concat ps = ws @ post)"
    by (auto simp: append_eq_append_conv2)
  have "(\<exists>us. p = pre @ us) \<or> (\<exists>us. pre = p @ us \<and> us \<noteq> [] \<and> concat ps = us @ post)"
    using ws by (cases ws) auto
  then consider
    (here) us where "p = pre @ us"
    | (later) us where "pre = p @ us" "us \<noteq> []" "concat ps = us @ post"
    by blast
  then show ?case
  proof cases
    case here
    from callback_limit_page [OF Cons.prems(2,3,5), of us] here
    show ?thesis by auto
  next
    case later
    from Cons.prems(2) later have fp: "\<forall>x\<in>set p. failsVerification v r ro ad x"
      and fus: "\<forall>x\<in>set us. failsVerification v r ro ad x" by auto
    from later(2) have pos: "0 < int (length us)" by simp
    from Cons.prems(3) later(1) have
      "numOfSignatureProcessed s + int (length p) + int (length us) = MaxSignatureAttempts ro"
      by simp
    with pos have lp:
      "numOfSignatureProcessed s + int (length p) < MaxSignatureAttempts ro" by linarith
    from callback_failed_page [OF fp lp Cons.prems(5)]
    obtain s1 where cb: "callback v r ro ad p s = (None, s1)"
      and run1: "failedRun v r ro ad p s s1" by blast
    from run1 Cons.prems(3) later have l1:
      "numOfSignatureProcessed s1 + int (length us) = MaxSignatureAttempts ro"
      and inv1: "optsInv ro s1" by (simp_all add: failedRun_def)
    from Cons.IH [OF later(3) fus l1 later(2) inv1]
    obtain s' where
      rest: "deliverPages (callback v r ro ad) ps final s1 =
               (Some (errExceededMaxVerificationLimit ro), s')"
      and run2: "failedRun v r ro ad us s1 s'" by blast
    from failedRun_trans [OF run1 run2] later have "failedRun v r ro ad pre s s'" by simp
    with cb rest show ?thesis by auto
  qed
qed

lemma processSignatures_counted:
  "counted (MaxSignatureAttempts ro) s \<Longrightarrow>
   counted (MaxSignatureAttempts ro) (snd (processSignatures v r ro ad ds s))"
proof (induction ds arbitrary: s)
  case Nil
  then show ?case by simp
next
  case (Cons d ds)
  show ?case
    using Cons.prems
    apply (simp add: Let_def split: sum.splits prod.splits option.splits)
    apply (intro conjI impI allI Cons.IH)
    apply (simp_all add: counted_def fetchedDescs_append verifyCalls_append)
    done
qed

lemma callback_counted:
  "counted (MaxSignatureAttempts ro) s \<Longrightarrow>
   counted (MaxSignatureAttempts ro) (snd (callback v r ro ad ds s))"
  using processSignatures_counted [of ro s v r ad ds]
  by (auto simp: callback_def split: prod.splits option.splits)

lemma deliverPages_preserves:
  assumes "\<And>p s. I s \<Longrightarrow> I (snd (fn p s))"
  shows "I s \<Longrightarrow> I (snd (deliverPages fn pages final s))"
proof (induction pages arbitrary: s)
  case Nil
  then show ?case by simp
next
  case (Cons p ps)
  from assms [OF Cons.prems, of p] Cons.IH [of "snd (fn p s)"]
  show ?case by (auto split: prod.splits option.splits)
qed

lemma Verify_counted:
  assumes "0 < MaxSignatureAttempts ro"
  shows "counted (MaxSignatureAttempts ro) (snd (Verify P v r ro))"
proof -
  have init: "counted (MaxSignatureAttempts ro) (initState o0)" for o0
    using assms by (simp add: counted_def initState_def)
  have list: "ListSignatures r ad (callback v r ro ad) s = (e, s') \<Longrightarrow>
      counted (MaxSignatureAttempts ro) s \<Longrightarrow> counted (MaxSignatureAttempts ro) s'" for s ad e s'
    by (simp add: ListSignatures_def split: prod.splits)
       (metis deliverPages_preserves callback_counted snd_conv)
  have ext: "counted m s \<Longrightarrow> fetchedDescs cs = [] \<Longrightarrow> verifyCalls cs = [] \<Longrightarrow>
      counted m (s\<lparr>calls := calls s @ cs\<rparr>)" for m s cs
    by (simp add: counted_def fetchedDescs_append verifyCalls_append)
  show ?thesis
    unfolding Verify_def Let_def
    apply (simp split: option.splits prod.splits sum.splits add: init)
    apply (intro conjI impI allI)
    apply (auto simp: init intro!: ext)
     apply (erule list, rule ext, simp_all add: init)+
    done
qed

lemma inOrder_refl: "inOrder m ds s s"
  by (simp add: inOrder_def)

lemma inOrder_Cons:
  assumes "numOfSignatureProcessed s1 = numOfSignatureProcessed s + 1"
    and "fetchedDescs (calls s1) = fetchedDescs (calls s) @ [d]"
    and "inOrder m ds s1 s'"
  shows "inOrder m (d # ds) s s'"
proof -
  let ?k = "nat (numOfSignatureProcessed s' - numOfSignatureProcessed s)"
  from assms have le: "numOfSignatureProcessed s + 1 \<le> numOfSignatureProcessed s'"
    by (simp add: inOrder_def)
  then have k: "?k = Suc (nat (numOfSignatureProcessed s' - numOfSignatureProcessed s1))"
    using assms(1) by linarith
  from assms show ?thesis
    unfolding inOrder_def k by simp
qed

lemma processSignatures_loopOk:
  "loopOk (MaxSignatureAttempts ro) ds s
     (fst (processSignatures v r ro ad ds s)) (snd (processSignatures v r ro ad ds s))"
proof (induction ds arbitrary: s)
  case Nil
  show ?case by (simp add: inOrder_refl loopOk_def)
next
  case (Cons d ds)
  let ?m = "MaxSignatureAttempts ro"
  show ?case
  proof (cases "?m \<le> numOfSignatureProcessed s")
    case True
    then show ?thesis by (simp add: inOrder_refl loopOk_def)
  next
    case False
    have one: "loopOk ?m (d # ds) s (Some e) s1"
      if "numOfSignatureProcessed s1 = numOfSignatureProcessed s + 1"
        and "fetchedDescs (calls s1) = fetchedDescs (calls s) @ [d]" for s1 e
      using inOrder_Cons [OF that inOrder_refl] by (simp add: loopOk_def)
    have more: "loopOk ?m (d # ds) s
        (fst (processSignatures v r ro ad ds s1)) (snd (processSignatures v r ro ad ds s1))"
      if "numOfSignatureProcessed s1 = numOfSignatureProcessed s + 1"
        and "fetchedDescs (calls s1) = fetchedDescs (calls s) @ [d]" for s1
      using Cons.IH [of s1] inOrder_Cons [OF that, of ?m ds] that(1)
      by (auto simp: loopOk_def)
    show ?thesis
      using False
      apply (simp add: Let_def split: sum.splits prod.splits option.splits del: length_Cons)
      apply (intro conjI impI allI;
             ((rule more; simp add: fetchedDescs_append)
              | (rule one; simp add: fetchedDescs_append)))
      done
  qed
qed

lemma callback_loopOk:
  "loopOk (MaxSignatureAttempts ro) p s
     (fst (callback v r ro ad p s)) (snd (callback v r ro ad p s))
   \<and> (fst (callback v r ro ad p s) = None \<longrightarrow>
        numOfSignatureProcessed (snd (callback v r ro ad p s))
          = numOfSignatureProcessed s + int (length p))"
  using processSignatures_loopOk [of ro p s v r ad]
  by (auto simp: callback_def loopOk_def split: prod.splits option.splits)

lemma deliverPages_inOrder:
  "inOrder (MaxSignatureAttempts ro) (concat pages) s
     (snd (deliverPages (callback v r ro ad) pages final s))"
proof (induction pages arbitrary: s)
  case Nil
  show ?case by (simp add: inOrder_refl)
next
  case (Cons p ps)
  let ?m = "MaxSignatureAttempts ro"
  obtain res s1 where cb: "callback v r ro ad p s = (res, s1)" by (cases "callback v r ro ad p s")
  from callback_loopOk [of ro p s v r ad] cb
  have io: "inOrder ?m p s s1"
    and full: "res = None \<longrightarrow> numOfSignatureProcessed s1 = numOfSignatureProcessed s + int (length p)"
    by (simp_all add: loopOk_def)
  show ?case
  proof (cases res)
    case (Some e)
    from io have "inOrder ?m (p @ concat ps) s s1"
      by (auto simp: inOrder_def)
    with cb Some show ?thesis by simp
  next
    case None
    let ?s' = "snd (deliverPages (callback v r ro ad) ps final s1)"
    from Cons.IH [of s1] have io2: "inOrder ?m (concat ps) s1 ?s'" .
    from None full have n1: "numOfSignatureProcessed s1 = numOfSignatureProcessed s + int (length p)"
      by simp
    with io have f1: "fetchedDescs (calls s1) = fetchedDescs (calls s) @ p"
      by (simp add: inOrder_def)
    from io2 n1 have ge: "numOfSignatureProcessed s + int (length p) \<le> numOfSignatureProcessed ?s'"
      by (simp add: inOrder_def)
    then have k: "nat (numOfSignatureProcessed ?s' - numOfSignatureProcessed s) =
        length p + nat (numOfSignatureProcessed ?s' - numOfSignatureProcessed s1)"
      using n1 by linarith
    have "inOrder ?m (p @ concat ps) s ?s'"
      using io2 n1 f1 ge unfolding inOrder_def k by simp
    with cb None show ?thesis by simp
  qed
qed

lemma Verify_listed:
  assumes "isRemote repo"
    and "notSkipped verifier ro"
    and "0 < MaxSignatureAttempts ro"
    and "P (RemoteArtifactReference ro) = Inr reference"
    and "reference \<noteq> []"
    and "Resolve repo (RemoteArtifactReference ro) = Inr ad"
    and "Referrers repo ad = (pages, final)"
  shows "\<exists>s3. Verify P verifier repo ro =
           (afterListSignatures ro ad
              (fst (deliverPages (callback verifier repo ro ad) pages final s3))
              (snd (deliverPages (callback verifier repo ro ad) pages final s3)),
            snd (deliverPages (callback verifier repo ro ad) pages final s3))
         \<and> numOfSignatureProcessed s3 = 0
         \<and> verificationOutcomes s3 = []
         \<and> verificationFailedErr s3 = ErrorVerificationFailed (Sprintf [] [])
         \<and> optsInv ro s3
         \<and> fetchedDescs (calls s3) = []
         \<and> verifyCalls (calls s3) = []"
proof (cases "SkipVerify verifier")
  case None
  let ?s3 = "(initState (initOpts ro))\<lparr>calls :=
      [CallResolve (RemoteArtifactReference ro), CallListSignatures ad]\<rparr>"
  have "Verify P verifier repo ro =
           (afterListSignatures ro ad
              (fst (deliverPages (callback verifier repo ro ad) pages final ?s3))
              (snd (deliverPages (callback verifier repo ro ad) pages final ?s3)),
            snd (deliverPages (callback verifier repo ro ad) pages final ?s3))"
    using assms None
    by (simp add: Verify_def Let_def ListSignatures_def initState_def split: prod.splits)
  moreover have "numOfSignatureProcessed ?s3 = 0 \<and> verificationOutcomes ?s3 = []
      \<and> verificationFailedErr ?s3 = ErrorVerificationFailed (Sprintf [] [])
      \<and> optsInv ro ?s3 \<and> fetchedDescs (calls ?s3) = [] \<and> verifyCalls (calls ?s3) = []"
    by (simp add: initState_def optsInv_def initOpts_def)
  ultimately show ?thesis by blast
next
  case (Some skipVerify)
  let ?s3 = "(initState (initOpts ro))\<lparr>calls :=
      [CallSkipVerify (initOpts ro), CallResolve (RemoteArtifactReference ro),
       CallListSignatures ad]\<rparr>"
  from assms(2) Some obtain lvl where sk: "skipVerify (initOpts ro) = (False, lvl, None)"
    by (auto simp: notSkipped_def split: prod.splits)
  have "Verify P verifier repo ro =
           (afterListSignatures ro ad
              (fst (deliverPages (callback verifier repo ro ad) pages final ?s3))
              (snd (deliverPages (callback verifier repo ro ad) pages final ?s3)),
            snd (deliverPages (callback verifier repo ro ad) pages final ?s3))"
    using assms Some sk
    by (simp add: Verify_def Let_def ListSignatures_def initState_def split: prod.splits)
  moreover have "numOfSignatureProcessed ?s3 = 0 \<and> verificationOutcomes ?s3 = []
      \<and> verificationFailedErr ?s3 = ErrorVerificationFailed (Sprintf [] [])
      \<and> optsInv ro ?s3 \<and> fetchedDescs (calls ?s3) = [] \<and> verifyCalls (calls ?s3) = []"
    by (simp add: initState_def optsInv_def initOpts_def)
  ultimately show ?thesis by blast
qed

lemma preferUserMetadata_fold:
  "(if \<exists>x\<in>set xs. isUserMetadataVerificationFailed (f x)
    then \<exists>x\<in>set xs. isUserMetadataVerificationFailed (f x)
           \<and> f x = Some (foldl preferUserMetadata acc (map f xs))
    else foldl preferUserMetadata acc (map f xs) = acc)"
proof (induction xs rule: rev_induct)
  case Nil
  show ?case by simp
next
  case (snoc x xs)
  have some: "isUserMetadataVerificationFailed e \<Longrightarrow> e = Some (the e)" for e
    by (cases e rule: isUserMetadataVerificationFailed.cases) simp_all
  show ?case
  proof (cases "isUserMetadataVerificationFailed (f x)")
    case True
    with some [OF True] show ?thesis by (auto simp: preferUserMetadata_def)
  next
    case False
    with snoc show ?thesis by (auto simp: preferUserMetadata_def split: if_splits)
  qed
qed

lemma Verify_fetched_prefix:
  assumes "Resolve r (RemoteArtifactReference ro) = Inr ad"
    and "Referrers r ad = (pages, final)"
  shows "fetchedDescs (calls (snd (Verify P v r ro))) =
           take (nat (numOfSignatureProcessed (snd (Verify P v r ro)))) (concat pages)"
proof -
  have base: "fetchedDescs (calls s) = [] \<Longrightarrow> numOfSignatureProcessed s = 0 \<Longrightarrow>
      fetchedDescs (calls s) = take (nat (numOfSignatureProcessed s)) (concat pages)" for s
    by simp
  have run: "deliverPages (callback v r ro ad) pages fin s = (e, s') \<Longrightarrow>
      fetchedDescs (calls s) = [] \<Longrightarrow> numOfSignatureProcessed s = 0 \<Longrightarrow>
      fetchedDescs (calls s') = take (nat (numOfSignatureProcessed s')) (concat pages)"
    for s fin e s'
    using deliverPages_inOrder [of ro pages s v r ad fin] by (simp add: inOrder_def)
  show ?thesis
    unfolding Verify_def Let_def
    using assms
    apply (simp split: option.splits prod.splits sum.splits add: initState_def ListSignatures_def)
    apply (intro conjI impI allI)
    apply (auto simp: initState_def)
     apply (erule run, simp, simp)+
    done
qed

section \<open>Evaluation of the samples\<close>

lemmas sample_defs = sampleRepo_def brokenRepo_def sampleParse_def sampleOpts_def
  secondOnlyVerifier_def metadataVerifier_def skippingVerifier_def
  sampleArtifact_def sig1_def sig2_def sig3_def sampleBlobDesc_def
  passedOutcome_def failedOutcome_def integrityError_def metadataError_def
  strictLevel_def skipLevel_def

lemmas run_defs = Verify_def Let_def initState_def initOpts_def ListSignatures_def
  callback_def afterListSignatures_def errExceededMaxVerificationLimit_def
  emptyDescriptor_def verificationOf_def failsVerification_def outcomeError_def
  notSkipped_def

section \<open>First success ends the iteration\<close>

text \<open>
  C1, amended. Let the repository be remote, verification not be skipped, the
  reference carry a tag or digest and resolve to \<open>ad\<close>, and let the referrers
  listing deliver the signature manifests \<open>pre @ d # post\<close>, in this order over
  any pages, where each signature of \<open>pre\<close> fails verification (its blob is
  fetched and \<open>verifier.Verify\<close> returns an error with an outcome), the blob of \<open>d\<close>
  is fetched and \<open>verifier.Verify\<close> succeeds on it, and \<open>d\<close> lies within the first
  \<open>MaxSignatureAttempts\<close> signatures. Then \<open>Verify\<close> returns \<open>ad\<close>, the list holding
  exactly the outcome of \<open>d\<close>, and a nil error; it has processed exactly the
  signatures \<open>pre @ [d]\<close>, in delivery order, fetching none after \<open>d\<close>, and has
  called \<open>verifier.Verify\<close> once for each of them.
\<close>

theorem Verify_first_success:
  assumes "isRemote repo"
    and "notSkipped verifier ro"
    and "P (RemoteArtifactReference ro) = Inr reference"
    and "reference \<noteq> []"
    and "Resolve repo (RemoteArtifactReference ro) = Inr ad"
    and "Referrers repo ad = (pages, final)"
    and "concat pages = pre @ d # post"
    and "\<forall>x\<in>set pre. failsVerification verifier repo ro ad x"
    and "verificationOf verifier repo ro ad d = Inr (outcome, None)"
    and "int (length pre) < MaxSignatureAttempts ro"
  shows "fst (Verify P verifier repo ro) = (ad, [outcome], None)
         \<and> numOfSignatureProcessed (snd (Verify P verifier repo ro)) = int (length pre) + 1
         \<and> fetchedDescs (calls (snd (Verify P verifier repo ro))) = pre @ [d]
         \<and> length (verifyCalls (calls (snd (Verify P verifier repo ro)))) = length pre + 1"
proof -
  from assms(10) have pos: "0 < MaxSignatureAttempts ro" by linarith
  from Verify_listed [where P = P, OF assms(1,2) pos assms(3,4,5,6)]
  obtain s3 where
    v: "Verify P verifier repo ro =
           (afterListSignatures ro ad
              (fst (deliverPages (callback verifier repo ro ad) pages final s3))
              (snd (deliverPages (callback verifier repo ro ad) pages final s3)),
            snd (deliverPages (callback verifier repo ro ad) pages final s3))"
    and s3: "numOfSignatureProcessed s3 = 0" "verificationOutcomes s3 = []"
      "optsInv ro s3" "fetchedDescs (calls s3) = []" "verifyCalls (calls s3) = []"
    by blast
  from assms(10) s3(1) have lim:
    "numOfSignatureProcessed s3 + int (length pre) < MaxSignatureAttempts ro" by simp
  from deliverPages_first_success [OF assms(7,8,9) lim s3(3), of final]
  obtain s' s'' where
    run: "deliverPages (callback verifier repo ro ad) pages final s3 = (Some errDoneVerification, s'')"
    and f: "failedRun verifier repo ro ad pre s3 s'" and ok: "verifiedRun d outcome s' s''"
    by blast
  from f ok s3 have fin: "numOfSignatureProcessed s'' = int (length pre) + 1"
    "verificationOutcomes s'' = [outcome]"
    "fetchedDescs (calls s'') = pre @ [d]"
    "length (verifyCalls (calls s'')) = length pre + 1"
    by (simp_all add: failedRun_def verifiedRun_def)
  from fin(1) have nz: "numOfSignatureProcessed s'' \<noteq> 0" by linarith
  show ?thesis
    unfolding v run using fin nz by (simp add: afterListSignatures_def)
qed

theorem Verify_first_success_witness:
  "isRemote (sampleRepo [[sig1], [sig2, sig3]])
   \<and> notSkipped secondOnlyVerifier (sampleOpts 3)
   \<and> sampleParse (RemoteArtifactReference (sampleOpts 3)) = Inr ''v1''
   \<and> Resolve (sampleRepo [[sig1], [sig2, sig3]]) (RemoteArtifactReference (sampleOpts 3))
       = Inr sampleArtifact
   \<and> Referrers (sampleRepo [[sig1], [sig2, sig3]]) sampleArtifact = ([[sig1], [sig2, sig3]], None)
   \<and> concat [[sig1], [sig2, sig3]] = [sig1] @ sig2 # [sig3]
   \<and> failsVerification secondOnlyVerifier (sampleRepo [[sig1], [sig2, sig3]])
          (sampleOpts 3) sampleArtifact sig1
   \<and> verificationOf secondOnlyVerifier (sampleRepo [[sig1], [sig2, sig3]]) (sampleOpts 3)
       sampleArtifact sig2 = Inr (Some (passedOutcome ''sha256:s2''), None)
   \<and> int (length [sig1]) < MaxSignatureAttempts (sampleOpts 3)
   \<and> fst (Verify sampleParse secondOnlyVerifier (sampleRepo [[sig1], [sig2, sig3]]) (sampleOpts 3))
       = (sampleArtifact, [Some (passedOutcome ''sha256:s2'')], None)
   \<and> numOfSignatureProcessed
       (snd (Verify sampleParse secondOnlyVerifier (sampleRepo [[sig1], [sig2, sig3]]) (sampleOpts 3)))
       = 2
   \<and> fetchedDescs (calls
       (snd (Verify sampleParse secondOnlyVerifier (sampleRepo [[sig1], [sig2, sig3]]) (sampleOpts 3))))
       = [sig1, sig2]"
proof -
  let ?repo = "sampleRepo [[sig1], [sig2, sig3]]"
  have h1: "isRemote ?repo" by (simp add: sample_defs)
  have h2: "notSkipped secondOnlyVerifier (sampleOpts 3)" by (simp add: run_defs sample_defs)
  have h3: "sampleParse (RemoteArtifactReference (sampleOpts 3)) = Inr ''v1''"
    by (simp add: sample_defs)
  have h4: "''v1'' \<noteq> []" by simp
  have h5: "Resolve ?repo (RemoteArtifactReference (sampleOpts 3)) = Inr sampleArtifact"
    by (simp add: sample_defs)
  have h6: "Referrers ?repo sampleArtifact = ([[sig1], [sig2, sig3]], None)"
    by (simp add: sample_defs)
  have h7: "concat [[sig1], [sig2, sig3]] = [sig1] @ sig2 # [sig3]" by simp
  have h8: "\<forall>x\<in>set [sig1]. failsVerification secondOnlyVerifier ?repo (sampleOpts 3) sampleArtifact x"
    by (simp add: run_defs sample_defs)
  have h9: "verificationOf secondOnlyVerifier ?repo (sampleOpts 3) sampleArtifact sig2
      = Inr (Some (passedOutcome ''sha256:s2''), None)"
    by (simp add: run_defs sample_defs)
  have h10: "int (length [sig1]) < MaxSignatureAttempts (sampleOpts 3)"
    by (simp add: sample_defs)
  from Verify_first_success [where P = sampleParse, OF h1 h2 h3 h4 h5 h6 h7 h8 h9 h10]
    h1 h2 h3 h5 h6 h8 h9 h10
  show ?thesis by simp
qed

text \<open>
  The claim as stated fails when the limit is smaller than the position of the
  first signature that verifies: with three signatures of which only the second
  verifies and \<open>MaxSignatureAttempts = 1\<close>, one signature is processed and the call
  fails with the limit error.
\<close>

theorem Verify_first_success_counterexample:
  "failsVerification secondOnlyVerifier (sampleRepo [[sig1, sig2, sig3]]) (sampleOpts 1)
     sampleArtifact sig1
   \<and> verificationOf secondOnlyVerifier (sampleRepo [[sig1, sig2, sig3]]) (sampleOpts 1)
       sampleArtifact sig2 = Inr (Some (passedOutcome ''sha256:s2''), None)
   \<and> failsVerification secondOnlyVerifier (sampleRepo [[sig1, sig2, sig3]]) (sampleOpts 1)
       sampleArtifact sig3
   \<and> fst (Verify sampleParse secondOnlyVerifier (sampleRepo [[sig1, sig2, sig3]]) (sampleOpts 1)) =
       (emptyDescriptor, [],
        Some (ErrorVerificationFailed
          (Sprintf ''total number of signatures associated with an artifact should be less than: %d''
             [ArgInt 1])))
   \<and> numOfSignatureProcessed
       (snd (Verify sampleParse secondOnlyVerifier (sampleRepo [[sig1, sig2, sig3]]) (sampleOpts 1))) = 1
   \<and> fetchedDescs (calls
       (snd (Verify sampleParse secondOnlyVerifier (sampleRepo [[sig1, sig2, sig3]]) (sampleOpts 1))))
       = [sig1]"
  by (simp add: run_defs sample_defs)

section \<open>The limit on processed signatures\<close>

text \<open>
  C2. For every positive \<open>MaxSignatureAttempts\<close>, every verifier, repository and
  referrers listing: the counter of processed signatures equals the number of
  calls of \<open>FetchSignatureBlob\<close>; that number is at most \<open>MaxSignatureAttempts\<close>;
  \<open>verifier.Verify\<close> is called at most as often as \<open>FetchSignatureBlob\<close>; and the
  signature manifests fetched are an initial segment of the listing, in delivery
  order, so that each signature is counted and fetched at most once, however
  many signatures the listing holds.
\<close>

theorem Verify_attempts_bounded:
  assumes "0 < MaxSignatureAttempts remoteOpts"
  shows "numOfSignatureProcessed (snd (Verify ParseReference verifier repo remoteOpts)) =
           int (length (fetchedDescs (calls (snd (Verify ParseReference verifier repo remoteOpts)))))
         \<and> int (length (fetchedDescs (calls (snd (Verify ParseReference verifier repo remoteOpts)))))
             \<le> MaxSignatureAttempts remoteOpts
         \<and> length (verifyCalls (calls (snd (Verify ParseReference verifier repo remoteOpts))))
             \<le> length (fetchedDescs (calls (snd (Verify ParseReference verifier repo remoteOpts))))
         \<and> (\<forall>artifactDescriptor pages final.
               Resolve repo (RemoteArtifactReference remoteOpts) = Inr artifactDescriptor
               \<longrightarrow> Referrers repo artifactDescriptor = (pages, final)
               \<longrightarrow> fetchedDescs (calls (snd (Verify ParseReference verifier repo remoteOpts))) =
                     take (length (fetchedDescs
                             (calls (snd (Verify ParseReference verifier repo remoteOpts)))))
                       (concat pages))"
proof -
  let ?s = "snd (Verify ParseReference verifier repo remoteOpts)"
  from Verify_counted [OF assms, of ParseReference verifier repo]
  have c: "numOfSignatureProcessed ?s = int (length (fetchedDescs (calls ?s)))"
    "length (verifyCalls (calls ?s)) \<le> length (fetchedDescs (calls ?s))"
    "numOfSignatureProcessed ?s \<le> MaxSignatureAttempts remoteOpts"
    by (simp_all add: counted_def)
  have "fetchedDescs (calls ?s) = take (length (fetchedDescs (calls ?s))) (concat pages)"
    if "Resolve repo (RemoteArtifactReference remoteOpts) = Inr ad"
      and "Referrers repo ad = (pages, final)" for ad pages final
    using Verify_fetched_prefix [OF that, of ParseReference verifier] c(1) by simp
  with c show ?thesis by auto
qed

theorem Verify_attempts_bounded_witness:
  "0 < MaxSignatureAttempts (sampleOpts 2)
   \<and> Resolve (sampleRepo [[sig1, sig2, sig3]]) (RemoteArtifactReference (sampleOpts 2))
       = Inr sampleArtifact
   \<and> Referrers (sampleRepo [[sig1, sig2, sig3]]) sampleArtifact = ([[sig1, sig2, sig3]], None)
   \<and> numOfSignatureProcessed
       (snd (Verify sampleParse metadataVerifier (sampleRepo [[sig1, sig2, sig3]]) (sampleOpts 2))) = 2
   \<and> fetchedDescs (calls
       (snd (Verify sampleParse metadataVerifier (sampleRepo [[sig1, sig2, sig3]]) (sampleOpts 2))))
       = take 2 (concat [[sig1, sig2, sig3]])
   \<and> length (verifyCalls (calls
       (snd (Verify sampleParse metadataVerifier (sampleRepo [[sig1, sig2, sig3]]) (sampleOpts 2)))))
       = 2"
proof -
  have h: "0 < MaxSignatureAttempts (sampleOpts 2)" by (simp add: sample_defs)
  have r: "Resolve (sampleRepo [[sig1, sig2, sig3]]) (RemoteArtifactReference (sampleOpts 2))
       = Inr sampleArtifact"
    "Referrers (sampleRepo [[sig1, sig2, sig3]]) sampleArtifact = ([[sig1, sig2, sig3]], None)"
    by (simp_all add: sample_defs)
  have e: "fetchedDescs (calls
       (snd (Verify sampleParse metadataVerifier (sampleRepo [[sig1, sig2, sig3]]) (sampleOpts 2))))
       = [sig1, sig2]"
    "length (verifyCalls (calls
       (snd (Verify sampleParse metadataVerifier (sampleRepo [[sig1, sig2, sig3]]) (sampleOpts 2)))))
       = 2"
    by (simp_all add: run_defs sample_defs)
  from Verify_attempts_bounded [OF h, of sampleParse metadataVerifier
      "sampleRepo [[sig1, sig2, sig3]]"] h r e
  show ?thesis by simp
qed

section \<open>No signature present, no signature verified\<close>

text \<open>
  C3, amended. Let the repository be remote, verification not be skipped,
  \<open>MaxSignatureAttempts\<close> be positive, the reference carry a tag or digest and
  resolve to \<open>ad\<close>, the referrers listing end without error, every listed
  signature fail verification (its blob is fetched and \<open>verifier.Verify\<close> returns
  an error with an outcome), and the number of listed signatures be smaller than
  \<open>MaxSignatureAttempts\<close>. If no signature is listed, \<open>Verify\<close> fails with
  \<open>ErrorSignatureRetrievalFailed\<close> and the message "no signature is associated with
  ...". If at least one is listed, \<open>Verify\<close> fails with an empty list of outcomes
  and an error which is the \<open>Error\<close> of an outcome that carried an
  \<open>ErrorUserMetadataVerificationFailed\<close> when some outcome did, and the empty
  \<open>ErrorVerificationFailed\<close> otherwise. All listed signatures are processed.
\<close>

theorem Verify_none_verified:
  assumes "isRemote repo"
    and "notSkipped verifier ro"
    and "0 < MaxSignatureAttempts ro"
    and "P (RemoteArtifactReference ro) = Inr reference"
    and "reference \<noteq> []"
    and "Resolve repo (RemoteArtifactReference ro) = Inr ad"
    and "Referrers repo ad = (pages, None)"
    and "\<forall>x\<in>set (concat pages). failsVerification verifier repo ro ad x"
    and "int (length (concat pages)) < MaxSignatureAttempts ro"
  shows "(concat pages = [] \<longrightarrow>
            fst (Verify P verifier repo ro) =
              (emptyDescriptor, [],
               Some (ErrorSignatureRetrievalFailed
                 (Sprintf ''no signature is associated with %q, make sure the image was signed successfully''
                    [ArgStr (RemoteArtifactReference ro)]))))
         \<and> (concat pages \<noteq> [] \<longrightarrow>
              (\<exists>e. fst (Verify P verifier repo ro) = (emptyDescriptor, [], Some e)
                 \<and> (if \<exists>x\<in>set (concat pages).
                          isUserMetadataVerificationFailed (outcomeError verifier repo ro ad x)
                    then \<exists>x\<in>set (concat pages).
                           isUserMetadataVerificationFailed (outcomeError verifier repo ro ad x)
                           \<and> outcomeError verifier repo ro ad x = Some e
                    else e = ErrorVerificationFailed (Sprintf [] []))))
         \<and> numOfSignatureProcessed (snd (Verify P verifier repo ro)) = int (length (concat pages))"
proof -
  from Verify_listed [where P = P, OF assms(1,2,3,4,5,6,7)]
  obtain s3 where
    v: "Verify P verifier repo ro =
           (afterListSignatures ro ad
              (fst (deliverPages (callback verifier repo ro ad) pages None s3))
              (snd (deliverPages (callback verifier repo ro ad) pages None s3)),
            snd (deliverPages (callback verifier repo ro ad) pages None s3))"
    and s3: "numOfSignatureProcessed s3 = 0" "verificationOutcomes s3 = []"
      "verificationFailedErr s3 = ErrorVerificationFailed (Sprintf [] [])"
      "optsInv ro s3"
    by blast
  from assms(9) s3(1) have lim:
    "numOfSignatureProcessed s3 + int (length (concat pages)) < MaxSignatureAttempts ro" by simp
  from deliverPages_all_failed [OF assms(8) lim s3(4), of None]
  obtain s' where
    run: "deliverPages (callback verifier repo ro ad) pages None s3 = (None, s')"
    and f: "failedRun verifier repo ro ad (concat pages) s3 s'"
    by blast
  let ?e = "foldl preferUserMetadata (ErrorVerificationFailed (Sprintf [] []))
              (map (outcomeError verifier repo ro ad) (concat pages))"
  from f s3 have fin: "numOfSignatureProcessed s' = int (length (concat pages))"
    "verificationOutcomes s' = []" "verificationFailedErr s' = ?e"
    by (simp_all add: failedRun_def)
  have res: "fst (Verify P verifier repo ro) =
      (if concat pages = [] then
         (emptyDescriptor, [],
          Some (ErrorSignatureRetrievalFailed
            (Sprintf ''no signature is associated with %q, make sure the image was signed successfully''
               [ArgStr (RemoteArtifactReference ro)])))
       else (emptyDescriptor, [], Some ?e))"
    unfolding v run using fin by (simp add: afterListSignatures_def)
  have cnt: "numOfSignatureProcessed (snd (Verify P verifier repo ro)) = int (length (concat pages))"
    unfolding v run using fin by simp
  note pf = preferUserMetadata_fold [of "concat pages" "outcomeError verifier repo ro ad"
      "ErrorVerificationFailed (Sprintf [] [])"]
  show ?thesis
  proof (intro conjI impI)
    assume e: "concat pages = []"
    from res show "fst (Verify P verifier repo ro) =
      (emptyDescriptor, [],
       Some (ErrorSignatureRetrievalFailed
         (Sprintf ''no signature is associated with %q, make sure the image was signed successfully''
            [ArgStr (RemoteArtifactReference ro)])))" by (simp only: e if_True simp_thms)
  next
    assume ne: "concat pages \<noteq> []"
    from res have "fst (Verify P verifier repo ro) = (emptyDescriptor, [], Some ?e)"
      by (simp only: ne if_False simp_thms)
    with pf show "\<exists>e. fst (Verify P verifier repo ro) = (emptyDescriptor, [], Some e)
                 \<and> (if \<exists>x\<in>set (concat pages).
                          isUserMetadataVerificationFailed (outcomeError verifier repo ro ad x)
                    then \<exists>x\<in>set (concat pages).
                           isUserMetadataVerificationFailed (outcomeError verifier repo ro ad x)
                           \<and> outcomeError verifier repo ro ad x = Some e
                    else e = ErrorVerificationFailed (Sprintf [] []))"
      by (intro exI [of _ ?e]) simp
  next
    from cnt show "numOfSignatureProcessed (snd (Verify P verifier repo ro))
      = int (length (concat pages))" .
  qed
qed

theorem Verify_none_verified_witness:
  "isRemote (sampleRepo [[sig1], [sig3]])
   \<and> notSkipped metadataVerifier (sampleOpts 3)
   \<and> 0 < MaxSignatureAttempts (sampleOpts 3)
   \<and> sampleParse (RemoteArtifactReference (sampleOpts 3)) = Inr ''v1''
   \<and> Resolve (sampleRepo [[sig1], [sig3]]) (RemoteArtifactReference (sampleOpts 3))
       = Inr sampleArtifact
   \<and> Referrers (sampleRepo [[sig1], [sig3]]) sampleArtifact = ([[sig1], [sig3]], None)
   \<and> failsVerification metadataVerifier (sampleRepo [[sig1], [sig3]]) (sampleOpts 3)
           sampleArtifact sig1
   \<and> failsVerification metadataVerifier (sampleRepo [[sig1], [sig3]]) (sampleOpts 3)
           sampleArtifact sig3
   \<and> int (length (concat [[sig1], [sig3]])) < MaxSignatureAttempts (sampleOpts 3)
   \<and> concat [[sig1], [sig3]] \<noteq> []
   \<and> fst (Verify sampleParse metadataVerifier (sampleRepo [[sig1], [sig3]]) (sampleOpts 3))
       = (emptyDescriptor, [], Some metadataError)
   \<and> numOfSignatureProcessed
       (snd (Verify sampleParse metadataVerifier (sampleRepo [[sig1], [sig3]]) (sampleOpts 3))) = 2"
proof -
  let ?repo = "sampleRepo [[sig1], [sig3]]"
  have h1: "isRemote ?repo" by (simp add: sample_defs)
  have h2: "notSkipped metadataVerifier (sampleOpts 3)" by (simp add: run_defs sample_defs)
  have h3: "0 < MaxSignatureAttempts (sampleOpts 3)" by (simp add: sample_defs)
  have h4: "sampleParse (RemoteArtifactReference (sampleOpts 3)) = Inr ''v1''"
    by (simp add: sample_defs)
  have h5: "''v1'' \<noteq> []" by simp
  have h6: "Resolve ?repo (RemoteArtifactReference (sampleOpts 3)) = Inr sampleArtifact"
    by (simp add: sample_defs)
  have h7: "Referrers ?repo sampleArtifact = ([[sig1], [sig3]], None)"
    by (simp add: sample_defs)
  have h8: "\<forall>x\<in>set (concat [[sig1], [sig3]]).
      failsVerification metadataVerifier ?repo (sampleOpts 3) sampleArtifact x"
    by (simp add: run_defs sample_defs)
  have h9: "int (length (concat [[sig1], [sig3]])) < MaxSignatureAttempts (sampleOpts 3)"
    by (simp add: sample_defs)
  have e: "fst (Verify sampleParse metadataVerifier ?repo (sampleOpts 3))
       = (emptyDescriptor, [], Some metadataError)"
    by (simp add: run_defs sample_defs)
  from Verify_none_verified [where P = sampleParse, OF h1 h2 h3 h4 h5 h6 h7 h8 h9]
    h1 h2 h3 h4 h6 h7 h8 h9 e
  show ?thesis by simp
qed

text \<open>
  The claim as stated fails when the number of processed signatures reaches
  \<open>MaxSignatureAttempts\<close>: with one signature whose outcome carries an
  \<open>ErrorUserMetadataVerificationFailed\<close> and \<open>MaxSignatureAttempts = 1\<close>, the call
  fails with the limit error, which is no \<open>ErrorUserMetadataVerificationFailed\<close>.
\<close>

theorem Verify_none_verified_counterexample:
  "outcomeError metadataVerifier (sampleRepo [[sig1]]) (sampleOpts 1) sampleArtifact sig1
     = Some metadataError
   \<and> isUserMetadataVerificationFailed (Some metadataError)
   \<and> numOfSignatureProcessed
       (snd (Verify sampleParse metadataVerifier (sampleRepo [[sig1]]) (sampleOpts 1))) = 1
   \<and> fst (Verify sampleParse metadataVerifier (sampleRepo [[sig1]]) (sampleOpts 1)) =
       (emptyDescriptor, [],
        Some (ErrorVerificationFailed
          (Sprintf ''total number of signatures associated with an artifact should be less than: %d''
             [ArgInt 1])))
   \<and> \<not> isUserMetadataVerificationFailed
         (snd (snd (fst (Verify sampleParse metadataVerifier (sampleRepo [[sig1]]) (sampleOpts 1)))))"
  by (simp add: run_defs sample_defs)

section \<open>Reaching the limit without success\<close>

text \<open>
  C10, amended. Let the repository be remote, verification not be skipped,
  \<open>MaxSignatureAttempts\<close> be positive, the reference carry a tag or digest and
  resolve to \<open>ad\<close>, and let the referrers listing deliver \<open>pre @ post\<close>, where \<open>pre\<close>
  holds exactly \<open>MaxSignatureAttempts\<close> signatures and each of them fails
  verification (its blob is fetched and \<open>verifier.Verify\<close> returns an error with
  an outcome). Then \<open>Verify\<close> returns the empty descriptor, the empty list of
  outcomes and the limit error "total number of signatures associated with an
  artifact should be less than: N", having processed exactly the signatures
  \<open>pre\<close>. This holds also when \<open>post\<close> is empty, that is, when the listing
  holds no further signature.
\<close>

theorem Verify_limit_reached:
  assumes "isRemote repo"
    and "notSkipped verifier ro"
    and "0 < MaxSignatureAttempts ro"
    and "P (RemoteArtifactReference ro) = Inr reference"
    and "reference \<noteq> []"
    and "Resolve repo (RemoteArtifactReference ro) = Inr ad"
    and "Referrers repo ad = (pages, final)"
    and "concat pages = pre @ post"
    and "int (length pre) = MaxSignatureAttempts ro"
    and "\<forall>x\<in>set pre. failsVerification verifier repo ro ad x"
  shows "fst (Verify P verifier repo ro) =
           (emptyDescriptor, [], Some (errExceededMaxVerificationLimit ro))
         \<and> numOfSignatureProcessed (snd (Verify P verifier repo ro)) = MaxSignatureAttempts ro
         \<and> fetchedDescs (calls (snd (Verify P verifier repo ro))) = pre"
proof -
  from Verify_listed [where P = P, OF assms(1,2,3,4,5,6,7)]
  obtain s3 where
    v: "Verify P verifier repo ro =
           (afterListSignatures ro ad
              (fst (deliverPages (callback verifier repo ro ad) pages final s3))
              (snd (deliverPages (callback verifier repo ro ad) pages final s3)),
            snd (deliverPages (callback verifier repo ro ad) pages final s3))"
    and s3: "numOfSignatureProcessed s3 = 0" "verificationOutcomes s3 = []"
      "optsInv ro s3" "fetchedDescs (calls s3) = []"
    by blast
  from assms(9) s3(1) have lim:
    "numOfSignatureProcessed s3 + int (length pre) = MaxSignatureAttempts ro" by simp
  from assms(3,9) have ne: "pre \<noteq> []" by auto
  from deliverPages_limit [OF assms(8,10) lim ne s3(3), of final]
  obtain s' where
    run: "deliverPages (callback verifier repo ro ad) pages final s3 =
            (Some (errExceededMaxVerificationLimit ro), s')"
    and f: "failedRun verifier repo ro ad pre s3 s'"
    by blast
  from f s3 assms(9) have fin: "numOfSignatureProcessed s' = MaxSignatureAttempts ro"
    "verificationOutcomes s' = []" "fetchedDescs (calls s') = pre"
    by (simp_all add: failedRun_def)
  show ?thesis
    unfolding v run using fin
    by (simp add: afterListSignatures_def errExceededMaxVerificationLimit_def)
qed

theorem Verify_limit_reached_witness:
  "isRemote (sampleRepo [[sig1], [sig3]])
   \<and> notSkipped secondOnlyVerifier (sampleOpts 2)
   \<and> 0 < MaxSignatureAttempts (sampleOpts 2)
   \<and> sampleParse (RemoteArtifactReference (sampleOpts 2)) = Inr ''v1''
   \<and> Resolve (sampleRepo [[sig1], [sig3]]) (RemoteArtifactReference (sampleOpts 2))
       = Inr sampleArtifact
   \<and> Referrers (sampleRepo [[sig1], [sig3]]) sampleArtifact = ([[sig1], [sig3]], None)
   \<and> concat [[sig1], [sig3]] = [sig1, sig3] @ []
   \<and> int (length [sig1, sig3]) = MaxSignatureAttempts (sampleOpts 2)
   \<and> failsVerification secondOnlyVerifier (sampleRepo [[sig1], [sig3]]) (sampleOpts 2)
           sampleArtifact sig1
   \<and> failsVerification secondOnlyVerifier (sampleRepo [[sig1], [sig3]]) (sampleOpts 2)
           sampleArtifact sig3
   \<and> fst (Verify sampleParse secondOnlyVerifier (sampleRepo [[sig1], [sig3]]) (sampleOpts 2))
       = (emptyDescriptor, [],
          Some (ErrorVerificationFailed
            (Sprintf ''total number of signatures associated with an artifact should be less than: %d''
               [ArgInt 2])))
   \<and> numOfSignatureProcessed
       (snd (Verify sampleParse secondOnlyVerifier (sampleRepo [[sig1], [sig3]]) (sampleOpts 2))) = 2"
proof -
  let ?repo = "sampleRepo [[sig1], [sig3]]"
  have h1: "isRemote ?repo" by (simp add: sample_defs)
  have h2: "notSkipped secondOnlyVerifier (sampleOpts 2)" by (simp add: run_defs sample_defs)
  have h3: "0 < MaxSignatureAttempts (sampleOpts 2)" by (simp add: sample_defs)
  have h4: "sampleParse (RemoteArtifactReference (sampleOpts 2)) = Inr ''v1''"
    by (simp add: sample_defs)
  have h5: "''v1'' \<noteq> []" by simp
  have h6: "Resolve ?repo (RemoteArtifactReference (sampleOpts 2)) = Inr sampleArtifact"
    by (simp add: sample_defs)
  have h7: "Referrers ?repo sampleArtifact = ([[sig1], [sig3]], None)"
    by (simp add: sample_defs)
  have h8: "concat [[sig1], [sig3]] = [sig1, sig3] @ []" by simp
  have h9: "int (length [sig1, sig3]) = MaxSignatureAttempts (sampleOpts 2)"
    by (simp add: sample_defs)
  have h10: "\<forall>x\<in>set [sig1, sig3].
      failsVerification secondOnlyVerifier ?repo (sampleOpts 2) sampleArtifact x"
    by (simp add: run_defs sample_defs)
  have m: "errExceededMaxVerificationLimit (sampleOpts 2) = ErrorVerificationFailed
            (Sprintf ''total number of signatures associated with an artifact should be less than: %d''
               [ArgInt 2])"
    by (simp add: run_defs sample_defs)
  from Verify_limit_reached [where P = sampleParse, OF h1 h2 h3 h4 h5 h6 h7 h8 h9 h10]
    h1 h2 h3 h4 h6 h7 h9 h10 m
  show ?thesis by simp
qed

text \<open>
  The claim as stated fails when a processed signature cannot be fetched: with
  one signature whose blob fetch fails and \<open>MaxSignatureAttempts = 1\<close>, exactly
  \<open>MaxSignatureAttempts\<close> signatures are counted as processed and none verifies,
  yet the call fails with \<open>ErrorSignatureRetrievalFailed\<close> and not with the limit
  error.
\<close>

theorem Verify_limit_reached_counterexample:
  "numOfSignatureProcessed
     (snd (Verify sampleParse secondOnlyVerifier (brokenRepo [[sig1]]) (sampleOpts 1)))
       = MaxSignatureAttempts (sampleOpts 1)
   \<and> verificationOutcomes
       (snd (Verify sampleParse secondOnlyVerifier (brokenRepo [[sig1]]) (sampleOpts 1))) = []
   \<and> fst (Verify sampleParse secondOnlyVerifier (brokenRepo [[sig1]]) (sampleOpts 1)) =
       (emptyDescriptor, [],
        Some (ErrorSignatureRetrievalFailed
          (Sprintf ''unable to retrieve digital signature with digest %q associated with %q from the registry, error : %v''
             [ArgStr ''sha256:s1'', ArgStr ''registry.io/foo:v1'',
              ArgErr (errorString (Sprintf ''connection reset'' []))])))
   \<and> snd (snd (fst (Verify sampleParse secondOnlyVerifier (brokenRepo [[sig1]]) (sampleOpts 1))))
       \<noteq> Some (errExceededMaxVerificationLimit (sampleOpts 1))"
  by (simp add: run_defs sample_defs)

section \<open>The skip path\<close>

text \<open>
  C9. When the repository is a remote repository, the verifier implements
  \<open>SkipVerify\<close>, and that call reports skip without error, \<open>Verify\<close> returns the
  empty descriptor, a nil error and a single outcome that carries only the
  verification level. The only collaborator call made is \<open>SkipVerify\<close>: nothing is
  resolved, listed, fetched or verified, and the counter stays 0. This holds for
  every value of \<open>MaxSignatureAttempts\<close> and every reference parser.
\<close>

theorem Verify_skip:
  assumes "isRemote repo"
    and "SkipVerify verifier = Some skipVerify"
    and "skipVerify (initOpts remoteOpts) = (True, level, None)"
  shows "fst (Verify ParseReference verifier repo remoteOpts) =
           (emptyDescriptor,
            [Some \<lparr>RawSignature = None, OutcomeEnvelopeContent = None,
                   OutcomeVerificationLevel = level, VerificationResults = [],
                   Error = None\<rparr>], None)
         \<and> numOfSignatureProcessed (snd (Verify ParseReference verifier repo remoteOpts)) = 0
         \<and> calls (snd (Verify ParseReference verifier repo remoteOpts)) =
             [CallSkipVerify (initOpts remoteOpts)]"
  using assms by (simp add: Verify_def Let_def initState_def emptyOutcome_def)

theorem Verify_skip_witness:
  "isRemote (sampleRepo [[sig1]])
   \<and> SkipVerify skippingVerifier = Some (\<lambda>vo. (True, Some skipLevel, None))
   \<and> fst (Verify sampleParse skippingVerifier (sampleRepo [[sig1]]) (sampleOpts 0)) =
       (emptyDescriptor,
        [Some \<lparr>RawSignature = None, OutcomeEnvelopeContent = None,
               OutcomeVerificationLevel = Some skipLevel, VerificationResults = [],
               Error = None\<rparr>], None)
   \<and> numOfSignatureProcessed
       (snd (Verify sampleParse skippingVerifier (sampleRepo [[sig1]]) (sampleOpts 0))) = 0
   \<and> calls (snd (Verify sampleParse skippingVerifier (sampleRepo [[sig1]]) (sampleOpts 0))) =
       [CallSkipVerify (initOpts (sampleOpts 0))]"
proof -
  have r: "isRemote (sampleRepo [[sig1]])" by (simp add: sampleRepo_def)
  have k: "SkipVerify skippingVerifier = Some (\<lambda>vo. (True, Some skipLevel, None))"
    by (simp add: skippingVerifier_def)
  have a: "(\<lambda>vo. (True, Some skipLevel, None)) (initOpts (sampleOpts 0))
             = (True, Some skipLevel, None)" by simp
  from Verify_skip [OF r k a, of sampleParse] r k show ?thesis by simp
qed

end
